theory Spec2Isabelle
  imports Main "HOL-Library.Word" "HOL-Library.Monad_Syntax"
begin

section \<open>The API models used by the scan orchestrator\<close>

text \<open>
  The orchestrator (package \<open>scanner\<close>) works on the generated API models. Their
  declarations are read off the way the orchestrator uses them: every optional field is
  a Go pointer, modelled as an \<open>option\<close> (\<open>None\<close> is \<open>nil\<close>). A Go \<open>int\<close> is 64 bits
  wide on the released targets (amd64 and arm64), so it is a \<open>64 word\<close> and \<open>+\<close> and
  \<open>-\<close> wrap around as they do in Go. A Go \<open>error\<close> is modelled by its message, and a
  point in time by a natural number.
\<close>

type_synonym goint = "64 word"
type_synonym goerror = string
type_synonym time = nat

text \<open>
  What a Go function with an \<open>error\<close> result can do besides returning a value: return a
  non-nil error, or panic on the dereference of a nil pointer.
\<close>

datatype error = Error goerror | NilPointerDereference

datatype ScanState =
  ScanStateAborted | ScanStateDone | ScanStateFailed | ScanStateInProgress | ScanStatePending

datatype ScanStateReason =
  ScanStateReasonAborted | ScanStateReasonOneOrMoreTargetFailedToScan |
  ScanStateReasonSuccess | ScanStateReasonTimedOut | ScanStateReasonUnexpected

datatype TargetScanStateState = INIT | ATTACHED | INPROGRESS | ABORTED | DONE | NOTSCANNED

record VulnerabilityScanSummary =
  TotalCriticalVulnerabilities :: "goint option"
  TotalHighVulnerabilities :: "goint option"
  TotalLowVulnerabilities :: "goint option"
  TotalMediumVulnerabilities :: "goint option"
  TotalNegligibleVulnerabilities :: "goint option"

record ScanFindingsSummary =
  TotalExploits :: "goint option"
  TotalMalware :: "goint option"
  TotalMisconfigurations :: "goint option"
  TotalPackages :: "goint option"
  TotalRootkits :: "goint option"
  TotalSecrets :: "goint option"
  TotalVulnerabilities :: "VulnerabilityScanSummary option"

record ScanSummary =
  JobsCompleted :: "goint option"
  JobsLeftToRun :: "goint option"
  TotalExploits :: "goint option"
  TotalMalware :: "goint option"
  TotalMisconfigurations :: "goint option"
  TotalPackages :: "goint option"
  TotalRootkits :: "goint option"
  TotalSecrets :: "goint option"
  TotalVulnerabilities :: "VulnerabilityScanSummary option"

record Scan =
  EndTime :: "time option"
  State :: "ScanState option"
  StateMessage :: "string option"
  StateReason :: "ScanStateReason option"
  Summary :: "ScanSummary option"

record TargetScanState =
  Errors :: "string list option"
  State :: "TargetScanStateState option"

record TargetScanStatus =
  Exploits :: "TargetScanState option"
  General :: "TargetScanState option"
  Malware :: "TargetScanState option"
  Misconfigurations :: "TargetScanState option"
  Rootkits :: "TargetScanState option"
  Sbom :: "TargetScanState option"
  Secrets :: "TargetScanState option"
  Vulnerabilities :: "TargetScanState option"

record ScanRelationship =
  Id :: string

record TargetRelationship =
  Id :: string

record TargetScanResult =
  Id :: "string option"
  Summary :: "ScanFindingsSummary option"
  Scan :: "ScanRelationship option"
  Status :: "TargetScanStatus option"
  Target :: "TargetRelationship option"

text \<open>
  Modelled from the spec: the accessors \<open>Scan.GetState\<close>, \<open>TargetScanState.GetState\<close> and
  \<open>TargetScanStatus.GetGeneralState\<close> of the API models, which the orchestrator calls and
  which are not among the source files. They return the state and \<open>ok = true\<close> when the
  state can be read, and \<open>ok = false\<close> (with the zero value of the state, which is none
  of the named states) when a pointer on the way is nil. The pair is an \<open>option\<close>.
\<close>

definition Scan_GetState :: "Scan \<Rightarrow> ScanState option" where
  "Scan_GetState scan = Scan.State scan"

definition GetState :: "TargetScanState \<Rightarrow> TargetScanStateState option" where
  "GetState s = TargetScanState.State s"

definition GetGeneralState :: "TargetScanStatus \<Rightarrow> TargetScanStateState option" where
  "GetGeneralState status = (case General status of None \<Rightarrow> None | Some g \<Rightarrow> GetState g)"

section \<open>The cloud primitives and the orchestrator's own types\<close>

text \<open>
  \<open>types.Instance\<close>, \<open>types.Snapshot\<close> and \<open>types.Volume\<close> are interfaces of the provider.
  A value of one of them is modelled by what its getters return; a nil interface value
  is \<open>None\<close>.
\<close>

record Instance =
  InstanceID :: string
  InstanceRegion :: string
  AvailabilityZone :: string

record Snapshot =
  SnapshotID :: string
  SnapshotRegion :: string

record Volume =
  VolumeID :: string

record Job =
  Instance :: "Instance option"
  SrcSnapshot :: "Snapshot option"
  DstSnapshot :: "Snapshot option"
  Volume :: "Volume option"

record TargetInstance =
  TargetID :: string
  Instance :: Instance

record scanData =
  targetInstance :: TargetInstance
  scanResultID :: string
  success :: bool
  completed :: bool
  timeout :: bool

section \<open>The backend client\<close>

text \<open>
  The backend client is an external collaborator. It is a parameter of the model: a
  record of its operations over a backend state \<open>'b\<close>. A read returns an error or a
  (non-nil) value; a write returns its outcome and the new backend state.
  \<open>PostScanResult\<close> fails either with a \<open>ScanResultConflictError\<close>, which carries the
  conflicting scan result, or with another error.
\<close>

datatype postError = ScanResultConflictError TargetScanResult | OtherError goerror

record 'b backendClient =
  GetScan :: "string \<Rightarrow> 'b \<Rightarrow> goerror + Scan"
  PatchScan :: "string \<Rightarrow> Scan \<Rightarrow> 'b \<Rightarrow> goerror option \<times> 'b"
  GetScanResultSummary :: "string \<Rightarrow> 'b \<Rightarrow> goerror + ScanFindingsSummary"
  GetScanResultStatus :: "string \<Rightarrow> 'b \<Rightarrow> goerror + TargetScanStatus"
  PostScanResult :: "TargetScanResult \<Rightarrow> 'b \<Rightarrow> (postError + TargetScanResult) \<times> 'b"
  PatchTargetScanStatus :: "string \<Rightarrow> TargetScanStatus \<Rightarrow> 'b \<Rightarrow> goerror option \<times> 'b"

section \<open>The scan-summary roll-up\<close>

text \<open>
  Lines 182 to 196 of \<open>createScanWithUpdatedSummary\<close>: the statements that update the
  summary of the scan read from the backend, in the source's order. Each \<open>*p\<close> is a bind
  of the option monad, so the result is \<open>None\<close> exactly when a dereferenced pointer is
  nil. The last field of the new vulnerability summary is written as the source has it:
  it reads \<open>TotalCriticalVulnerabilities\<close> of the scan's summary.
\<close>

definition updateSummary :: "ScanSummary \<Rightarrow> ScanFindingsSummary \<Rightarrow> ScanSummary option" where
  "updateSummary summary scanResultSummary = do {
     jc \<leftarrow> JobsCompleted summary;
     let summary = summary\<lparr>JobsCompleted := Some (jc + 1)\<rparr>;
     jl \<leftarrow> JobsLeftToRun summary;
     let summary = summary\<lparr>JobsLeftToRun := Some (jl - 1)\<rparr>;
     a \<leftarrow> ScanSummary.TotalExploits summary;
     b \<leftarrow> ScanFindingsSummary.TotalExploits scanResultSummary;
     let summary = summary\<lparr>ScanSummary.TotalExploits := Some (a + b)\<rparr>;
     a \<leftarrow> ScanSummary.TotalMalware summary;
     b \<leftarrow> ScanFindingsSummary.TotalMalware scanResultSummary;
     let summary = summary\<lparr>ScanSummary.TotalMalware := Some (a + b)\<rparr>;
     a \<leftarrow> ScanSummary.TotalMisconfigurations summary;
     b \<leftarrow> ScanFindingsSummary.TotalMisconfigurations scanResultSummary;
     let summary = summary\<lparr>ScanSummary.TotalMisconfigurations := Some (a + b)\<rparr>;
     a \<leftarrow> ScanSummary.TotalPackages summary;
     b \<leftarrow> ScanFindingsSummary.TotalPackages scanResultSummary;
     let summary = summary\<lparr>ScanSummary.TotalPackages := Some (a + b)\<rparr>;
     a \<leftarrow> ScanSummary.TotalRootkits summary;
     b \<leftarrow> ScanFindingsSummary.TotalRootkits scanResultSummary;
     let summary = summary\<lparr>ScanSummary.TotalRootkits := Some (a + b)\<rparr>;
     a \<leftarrow> ScanSummary.TotalSecrets summary;
     b \<leftarrow> ScanFindingsSummary.TotalSecrets scanResultSummary;
     let summary = summary\<lparr>ScanSummary.TotalSecrets := Some (a + b)\<rparr>;
     sv \<leftarrow> ScanSummary.TotalVulnerabilities summary;
     rv \<leftarrow> ScanFindingsSummary.TotalVulnerabilities scanResultSummary;
     c1 \<leftarrow> TotalCriticalVulnerabilities sv;
     c2 \<leftarrow> TotalCriticalVulnerabilities rv;
     h1 \<leftarrow> TotalHighVulnerabilities sv;
     h2 \<leftarrow> TotalHighVulnerabilities rv;
     l1 \<leftarrow> TotalLowVulnerabilities sv;
     l2 \<leftarrow> TotalLowVulnerabilities rv;
     m1 \<leftarrow> TotalMediumVulnerabilities sv;
     m2 \<leftarrow> TotalMediumVulnerabilities rv;
     n1 \<leftarrow> TotalCriticalVulnerabilities sv;
     n2 \<leftarrow> TotalNegligibleVulnerabilities rv;
     Some (summary\<lparr>ScanSummary.TotalVulnerabilities := Some
       \<lparr>TotalCriticalVulnerabilities = Some (c1 + c2),
        TotalHighVulnerabilities = Some (h1 + h2),
        TotalLowVulnerabilities = Some (l1 + l2),
        TotalMediumVulnerabilities = Some (m1 + m2),
        TotalNegligibleVulnerabilities = Some (n1 + n2)\<rparr>\<rparr>)
   }"

text \<open>
  \<open>createScanWithUpdatedSummary\<close>: read the scan, read the summary of the completed
  target's scan result, update the scan's summary, return the scan. \<open>scan.Summary\<close> is a
  pointer as every other field of the scan is; the update panics when it is nil.
\<close>

definition createScanWithUpdatedSummary ::
  "'b backendClient \<Rightarrow> string \<Rightarrow> scanData \<Rightarrow> 'b \<Rightarrow> error + Scan" where
  "createScanWithUpdatedSummary backendClient scanID data b =
     (case GetScan backendClient scanID b of
        Inl err \<Rightarrow> Inl (Error (''failed to get scan to update status: '' @ err))
      | Inr scan \<Rightarrow>
          (case GetScanResultSummary backendClient (scanResultID data) b of
             Inl err \<Rightarrow> Inl (Error (''failed to get result summary to update status: '' @ err))
           | Inr scanResultSummary \<Rightarrow>
               (case Scan.Summary scan of
                  None \<Rightarrow> Inl NilPointerDereference
                | Some summary \<Rightarrow>
                    (case updateSummary summary scanResultSummary of
                       None \<Rightarrow> Inl NilPointerDereference
                     | Some summary' \<Rightarrow> Inr (scan\<lparr>Scan.Summary := Some summary'\<rparr>)))))"

section \<open>The provider and the job reaper\<close>

text \<open>
  The provider is the other external collaborator. Its operations are a parameter of the
  model: for each call, the outcome the cloud gives it (a created resource or an error;
  for a call without a result, \<open>None\<close> when it succeeds; the wait for a snapshot
  takes its timeout in seconds). What the orchestrator does to
  the cloud and what it logs at error level is recorded, in order, as a list of actions.
\<close>

record ScanningJobConfig =
  ScannerImage :: string
  ScannerCLIConfig :: string
  VMClarityAddress :: string
  ScanResultID :: string
  KeyPairName :: string
  ScannerInstanceCreationConfig :: "string option"

record providerClient =
  GetRootVolume :: "Instance \<Rightarrow> goerror + Volume"
  TakeSnapshot :: "Volume \<Rightarrow> goerror + Snapshot"
  Snapshot_WaitForReady :: "Snapshot \<Rightarrow> nat \<Rightarrow> goerror option"
  Snapshot_Copy :: "Snapshot \<Rightarrow> string \<Rightarrow> goerror + Snapshot"
  RunScanningJob :: "string \<Rightarrow> string \<Rightarrow> ScanningJobConfig \<Rightarrow> goerror + Instance"
  CreateVolume :: "Snapshot \<Rightarrow> string \<Rightarrow> goerror + Volume"
  Instance_WaitForReady :: "Instance \<Rightarrow> goerror option"
  Volume_WaitForReady :: "Volume \<Rightarrow> goerror option"
  AttachVolume :: "Instance \<Rightarrow> Volume \<Rightarrow> string \<Rightarrow> goerror option"
  WaitForAttached :: "Volume \<Rightarrow> goerror option"
  Instance_Delete :: "Instance \<Rightarrow> goerror option"
  Snapshot_Delete :: "Snapshot \<Rightarrow> goerror option"
  Volume_Delete :: "Volume \<Rightarrow> goerror option"

datatype action =
  SnapshotTaken Snapshot
  | SnapshotCopied Snapshot
  | InstanceLaunched Instance
  | VolumeCreated Volume
  | VolumeAttached Instance Volume
  | DeleteInstance Instance
  | DeleteSnapshot Snapshot
  | DeleteVolume Volume
  | LogErrorf string

datatype DeleteJobPolicyType = DeleteJobPolicyAlways | DeleteJobPolicyNever | DeleteJobPolicyOnSuccess

record config =
  Region :: string
  DeleteJobPolicy :: DeleteJobPolicyType
  DeviceName :: string
  ScannerImage :: string
  ScannerBackendAddress :: string
  ScannerKeyPairName :: string

text \<open>
  \<open>deleteJob\<close>: four independent blocks, one per field of the job. A nil field is
  skipped; an error of a delete is logged and the next block runs.
\<close>

definition deleteJob :: "providerClient \<Rightarrow> Job \<Rightarrow> action list" where
  "deleteJob providerClient job =
     (case Job.Instance job of
        None \<Rightarrow> []
      | Some i \<Rightarrow> DeleteInstance i #
          (case Instance_Delete providerClient i of
             None \<Rightarrow> []
           | Some err \<Rightarrow>
               [LogErrorf (''Failed to delete instance. instanceID='' @ InstanceID i @ '': '' @ err)]))
     @ (case SrcSnapshot job of
        None \<Rightarrow> []
      | Some s \<Rightarrow> DeleteSnapshot s #
          (case Snapshot_Delete providerClient s of
             None \<Rightarrow> []
           | Some err \<Rightarrow>
               [LogErrorf (''Failed to delete source snapshot. snapshotID='' @ SnapshotID s @ '': '' @ err)]))
     @ (case DstSnapshot job of
        None \<Rightarrow> []
      | Some s \<Rightarrow> DeleteSnapshot s #
          (case Snapshot_Delete providerClient s of
             None \<Rightarrow> []
           | Some err \<Rightarrow>
               [LogErrorf (''Failed to delete destination snapshot. snapshotID='' @ SnapshotID s @ '': '' @ err)]))
     @ (case Job.Volume job of
        None \<Rightarrow> []
      | Some v \<Rightarrow> DeleteVolume v #
          (case Volume_Delete providerClient v of
             None \<Rightarrow> []
           | Some err \<Rightarrow>
               [LogErrorf (''Failed to delete volume. volumeID='' @ VolumeID v @ '': '' @ err)]))"

text \<open>
  \<open>deleteJobIfNeeded\<close>: the job is a pointer here (\<open>None\<close> is nil, and nothing is done
  for it). A job that is not completed is always deleted; a completed one according to
  the policy.
\<close>

definition deleteJobIfNeeded ::
  "config \<Rightarrow> providerClient \<Rightarrow> Job option \<Rightarrow> bool \<Rightarrow> bool \<Rightarrow> action list" where
  "deleteJobIfNeeded config providerClient job isSuccessfulJob isCompletedJob =
     (case job of
        None \<Rightarrow> []
      | Some j \<Rightarrow>
          if \<not> isCompletedJob then deleteJob providerClient j
          else (case DeleteJobPolicy config of
                  DeleteJobPolicyNever \<Rightarrow> []
                | DeleteJobPolicyAlways \<Rightarrow> deleteJob providerClient j
                | DeleteJobPolicyOnSuccess \<Rightarrow>
                    if isSuccessfulJob then deleteJob providerClient j else []))"

text \<open>The deletions a list of actions attempts, in order.\<close>

fun deletions :: "action list \<Rightarrow> action list" where
  "deletions [] = []"
| "deletions (DeleteInstance i # as) = DeleteInstance i # deletions as"
| "deletions (DeleteSnapshot s # as) = DeleteSnapshot s # deletions as"
| "deletions (DeleteVolume v # as) = DeleteVolume v # deletions as"
| "deletions (_ # as) = deletions as"

section \<open>The job pipeline\<close>

text \<open>
  \<open>runJob\<close> provisions the resources of one target. In the source it declares the
  variables \<open>job\<close> and \<open>err\<close> at the top and defers a function that runs at every return:
  \<^verbatim>\<open>defer func() { if err != nil { s.deleteJob(ctx, &job) } }()\<close>.
  The deferred function reads the variables \<open>err\<close> and \<open>job\<close> of \<open>runJob\<close> as they are
  when \<open>runJob\<close> returns (the results of \<open>runJob\<close> are unnamed, so a \<open>return\<close> does not
  assign to them). The model passes both to \<open>runJob_deferred\<close> at every return.

  Most steps assign their error to that variable (\<open>x, err := f()\<close> with \<open>err\<close> already
  declared in the same scope, or \<open>err = f()\<close>). Three steps do not: the waits for the
  instance, for the volume and for the attachment are written
  \<^verbatim>\<open>if err := f(ctx); err != nil { return types.Job{}, ... }\<close>,
  which declares a new \<open>err\<close> local to the \<open>if\<close> statement. At these three returns the
  variable that the deferred function reads still holds the nil of the step before.
\<close>

definition SnapshotCreationTimeout :: nat where
  "SnapshotCreationTimeout = 3 * 60"

definition SnapshotCopyTimeout :: nat where
  "SnapshotCopyTimeout = 15 * 60"

record scanConfig =
  ScannerInstanceCreationConfig :: "string option"

definition emptyJob :: Job where
  "emptyJob = \<lparr>Job.Instance = None, SrcSnapshot = None, DstSnapshot = None, Job.Volume = None\<rparr>"

definition runJob_deferred :: "providerClient \<Rightarrow> goerror option \<Rightarrow> Job \<Rightarrow> action list" where
  "runJob_deferred providerClient err job =
     (if err \<noteq> None then deleteJob providerClient job else [])"

definition attachedStatus :: TargetScanStatus where
  "attachedStatus =
     \<lparr>Exploits = None,
      General = Some \<lparr>Errors = None, TargetScanState.State = Some ATTACHED\<rparr>,
      Malware = None, Misconfigurations = None, Rootkits = None, Sbom = None,
      Secrets = None, Vulnerabilities = None\<rparr>"

text \<open>
  The second half of \<open>runJob\<close>, from the generation of the families configuration on.
  \<open>familiesYaml\<close> is the outcome of \<open>generateFamiliesConfigurationYaml\<close>, whose YAML
  marshalling is not modelled. \<open>acts\<close> are the actions so far, \<open>job\<close> and
  \<open>launchSnapshot\<close> the variables of \<open>runJob\<close>; \<open>err\<close> is nil on entry.
\<close>

definition runJob_launch ::
  "config \<Rightarrow> scanConfig \<Rightarrow> 'b backendClient \<Rightarrow> providerClient \<Rightarrow> goerror + string \<Rightarrow>
   scanData \<Rightarrow> Job \<Rightarrow> Snapshot \<Rightarrow> action list \<Rightarrow> 'b \<Rightarrow>
   (Job \<times> goerror option) \<times> action list \<times> 'b" where
  "runJob_launch config scanConfig backendClient providerClient familiesYaml data job launchSnapshot acts b =
     (case familiesYaml of
        Inl err \<Rightarrow>
          ((emptyJob, Some (''failed to generate scanner configuration yaml: '' @ err)),
           acts @ runJob_deferred providerClient (Some err) job, b)
      | Inr familiesConfiguration \<Rightarrow>
          let scanningJobConfig =
            \<lparr>ScanningJobConfig.ScannerImage = config.ScannerImage config,
             ScannerCLIConfig = familiesConfiguration,
             VMClarityAddress = ScannerBackendAddress config,
             ScanResultID = scanResultID data,
             KeyPairName = ScannerKeyPairName config,
             ScanningJobConfig.ScannerInstanceCreationConfig =
               scanConfig.ScannerInstanceCreationConfig scanConfig\<rparr>
          in
          (case RunScanningJob providerClient (SnapshotRegion launchSnapshot)
                  (SnapshotID launchSnapshot) scanningJobConfig of
             Inl err \<Rightarrow>
               ((emptyJob, Some (''failed to launch a new instance: '' @ err)),
                acts @ runJob_deferred providerClient (Some err) job, b)
           | Inr launchInstance \<Rightarrow>
               let job = job\<lparr>Job.Instance := Some launchInstance\<rparr>;
                   acts = acts @ [InstanceLaunched launchInstance]
               in
               (case CreateVolume providerClient launchSnapshot (AvailabilityZone launchInstance) of
                  Inl err \<Rightarrow>
                    ((emptyJob, Some (''failed to create volume: '' @ err)),
                     acts @ runJob_deferred providerClient (Some err) job, b)
                | Inr newVolume \<Rightarrow>
                    let job = job\<lparr>Job.Volume := Some newVolume\<rparr>;
                        acts = acts @ [VolumeCreated newVolume]
                    in
                    (case Instance_WaitForReady providerClient launchInstance of
                       Some err' \<Rightarrow>
                         ((emptyJob, Some (''failed to wait for instance ready: '' @ err')),
                          acts @ runJob_deferred providerClient None job, b)
                     | None \<Rightarrow>
                    (case Volume_WaitForReady providerClient newVolume of
                       Some err' \<Rightarrow>
                         ((emptyJob, Some (''failed to wait for volume to be ready: '' @ err')),
                          acts @ runJob_deferred providerClient None job, b)
                     | None \<Rightarrow>
                    (case AttachVolume providerClient launchInstance newVolume (DeviceName config) of
                       Some err \<Rightarrow>
                         ((emptyJob, Some (''failed to attach volume: '' @ err)),
                          acts @ runJob_deferred providerClient (Some err) job, b)
                     | None \<Rightarrow>
                    let acts = acts @ [VolumeAttached launchInstance newVolume] in
                    (case WaitForAttached providerClient newVolume of
                       Some err' \<Rightarrow>
                         ((emptyJob, Some (''failed to wait for volume attached: '' @ err')),
                          acts @ runJob_deferred providerClient None job, b)
                     | None \<Rightarrow>
                    (case PatchTargetScanStatus backendClient (scanResultID data) attachedStatus b of
                       (Some err, b') \<Rightarrow>
                         ((emptyJob, Some (''failed to patch target scan status: '' @ err)),
                          acts @ runJob_deferred providerClient (Some err) job, b')
                     | (None, b') \<Rightarrow>
                         ((job, None), acts @ runJob_deferred providerClient None job, b')))))))))"

definition runJob ::
  "config \<Rightarrow> scanConfig \<Rightarrow> 'b backendClient \<Rightarrow> providerClient \<Rightarrow> goerror + string \<Rightarrow>
   scanData \<Rightarrow> 'b \<Rightarrow> (Job \<times> goerror option) \<times> action list \<times> 'b" where
  "runJob config scanConfig backendClient providerClient familiesYaml data b =
     (let instanceToScan = TargetInstance.Instance (targetInstance data);
          job = emptyJob
      in
      case GetRootVolume providerClient instanceToScan of
        Inl err \<Rightarrow>
          ((emptyJob, Some (''failed to get root volume of an instance '' @
              InstanceID instanceToScan @ '': '' @ err)),
           runJob_deferred providerClient (Some err) job, b)
      | Inr volume \<Rightarrow>
          (case TakeSnapshot providerClient volume of
             Inl err \<Rightarrow>
               ((emptyJob, Some (''failed to take snapshot of a volume: '' @ err)),
                runJob_deferred providerClient (Some err) job, b)
           | Inr snapshot \<Rightarrow>
               let job = job\<lparr>SrcSnapshot := Some snapshot\<rparr>;
                   acts = [SnapshotTaken snapshot]
               in
               (case Snapshot_WaitForReady providerClient snapshot SnapshotCreationTimeout of
                  Some err \<Rightarrow>
                    ((emptyJob, Some (''failed to wait for snapshot to be ready. snapshotID='' @
                        SnapshotID snapshot @ '': '' @ err)),
                     acts @ runJob_deferred providerClient (Some err) job, b)
                | None \<Rightarrow>
                    if Region config \<noteq> SnapshotRegion snapshot then
                      (case Snapshot_Copy providerClient snapshot (Region config) of
                         Inl err \<Rightarrow>
                           ((emptyJob, Some (''failed to copy snapshot. snapshotID='' @
                               SnapshotID snapshot @ '': '' @ err)),
                            acts @ runJob_deferred providerClient (Some err) job, b)
                       | Inr cpySnapshot \<Rightarrow>
                           let job = job\<lparr>DstSnapshot := Some cpySnapshot\<rparr>;
                               acts = acts @ [SnapshotCopied cpySnapshot]
                           in
                           (case Snapshot_WaitForReady providerClient cpySnapshot SnapshotCopyTimeout of
                              Some err \<Rightarrow>
                                ((emptyJob, Some (''failed to wait for snapshot to be ready. snapshotID='' @
                                    SnapshotID cpySnapshot @ '': '' @ err)),
                                 acts @ runJob_deferred providerClient (Some err) job, b)
                            | None \<Rightarrow>
                                runJob_launch config scanConfig backendClient providerClient
                                  familiesYaml data job cpySnapshot acts b))
                    else
                      runJob_launch config scanConfig backendClient providerClient
                        familiesYaml data job snapshot acts b)))"

section \<open>The result waiter and the worker\<close>

text \<open>
  \<open>scanStatusHasErrors\<close> reads \<open>status.General.Errors\<close>: it panics when \<open>General\<close> is
  nil (the result is \<open>None\<close> then), and otherwise tells whether the error list of the
  general state is present and not empty.
\<close>

definition scanStatusHasErrors :: "TargetScanStatus \<Rightarrow> bool option" where
  "scanStatusHasErrors status =
     (case General status of
        None \<Rightarrow> None
      | Some general \<Rightarrow>
          Some (case Errors general of None \<Rightarrow> False | Some errs \<Rightarrow> length errs > 0))"

text \<open>
  \<open>waitForResult\<close> is a loop around a \<open>select\<close> on three channels. Which channel is
  ready, and when, is the environment's choice, so the loop runs on a list of events:
  the ticker fires (\<open>TimerC b\<close>, where \<open>b\<close> is the state the backend is in by then), the
  context of the wait is done (\<open>CtxDone\<close>), or the kill signal is received (\<open>Ks\<close>). One
  iteration either goes round the loop again or returns.

  The context of the wait is made by \<open>context.WithTimeout(ctx, s.config.JobResultTimeout)\<close>
  from the context that the caller passes in. Its \<open>Done\<close> channel is closed for one of
  two causes: the job-result timeout has expired, or the caller's context is done (the
  backend cancels the context it hands to the orchestrator when it shuts down). The
  branch of the \<open>select\<close> is the same for both and does not look at the cause.
\<close>

datatype ctxDoneCause = JobResultTimeoutExpired | CallerContextDone

datatype 'b waitEvent = TimerC 'b | CtxDone ctxDoneCause | Ks

datatype 'a iteration = Continue 'a | Return 'a

definition waitForResult_select ::
  "'b backendClient \<Rightarrow> 'b waitEvent \<Rightarrow> scanData \<Rightarrow> 'b \<Rightarrow> error + (scanData \<times> 'b) iteration" where
  "waitForResult_select backendClient event data b =
     (case event of
        TimerC b' \<Rightarrow>
          (case GetScanResultStatus backendClient (scanResultID data) b' of
             Inl err \<Rightarrow> Inr (Continue (data, b'))
           | Inr scanResultStatus \<Rightarrow>
               (case GetGeneralState scanResultStatus of
                  None \<Rightarrow> Inr (Continue (data, b'))
                | Some INIT \<Rightarrow> Inr (Continue (data, b'))
                | Some ATTACHED \<Rightarrow> Inr (Continue (data, b'))
                | Some INPROGRESS \<Rightarrow> Inr (Continue (data, b'))
                | Some ABORTED \<Rightarrow> Inr (Continue (data, b'))
                | Some _ \<Rightarrow>
                    (case scanStatusHasErrors scanResultStatus of
                       None \<Rightarrow> Inl NilPointerDereference
                     | Some hasErrors \<Rightarrow>
                         Inr (Return (data\<lparr>success := \<not> hasErrors, completed := True\<rparr>, b')))))
      | CtxDone cause \<Rightarrow>
          Inr (Return (data\<lparr>success := False, completed := True, timeout := True\<rparr>, b))
      | Ks \<Rightarrow> Inr (Return (data, b)))"

text \<open>
  The loop. \<open>None\<close> says that \<open>waitForResult\<close> has not returned when the events are
  used up: it is still blocked in its \<open>select\<close>.
\<close>

fun waitForResult ::
  "'b backendClient \<Rightarrow> 'b waitEvent list \<Rightarrow> scanData \<Rightarrow> 'b \<Rightarrow> (error + scanData \<times> 'b) option" where
  "waitForResult backendClient [] data b = None"
| "waitForResult backendClient (event # events) data b =
     (case waitForResult_select backendClient event data b of
        Inl panic \<Rightarrow> Some (Inl panic)
      | Inr (Return r) \<Rightarrow> Some (Inr r)
      | Inr (Continue (data', b')) \<Rightarrow> waitForResult backendClient events data' b')"

text \<open>
  \<open>handleScanData\<close>. The \<open>INIT\<close> case falls through to the wait of the next case when
  \<open>runJob\<close> succeeds. The error of the timeout is formatted with the variable \<open>err\<close>,
  which is nil there.
\<close>

definition handleScanData_wait ::
  "'b backendClient \<Rightarrow> 'b waitEvent list \<Rightarrow> Job \<Rightarrow> scanData \<Rightarrow> action list \<Rightarrow> 'b \<Rightarrow>
   (error + (Job option \<times> goerror option) \<times> scanData \<times> action list \<times> 'b) option" where
  "handleScanData_wait backendClient events job data acts b =
     (case waitForResult backendClient events data b of
        None \<Rightarrow> None
      | Some (Inl panic) \<Rightarrow> Some (Inl panic)
      | Some (Inr (data', b')) \<Rightarrow>
          if timeout data' then
            Some (Inr ((None, Some (''scan job for target '' @ TargetID (targetInstance data') @
                          '' timed out: <nil>'')), data', acts, b'))
          else Some (Inr ((Some job, None), data', acts, b')))"

definition handleScanData ::
  "config \<Rightarrow> scanConfig \<Rightarrow> 'b backendClient \<Rightarrow> providerClient \<Rightarrow> goerror + string \<Rightarrow>
   'b waitEvent list \<Rightarrow> scanData \<Rightarrow> 'b \<Rightarrow>
   (error + (Job option \<times> goerror option) \<times> scanData \<times> action list \<times> 'b) option" where
  "handleScanData config scanConfig backendClient providerClient familiesYaml events data b =
     (case GetScanResultStatus backendClient (scanResultID data) b of
        Inl err \<Rightarrow>
          Some (Inr ((None, Some (''failed to fetch status of ScanResult with id '' @
                        scanResultID data @ '': '' @ err)), data, [], b))
      | Inr scanResultStatus \<Rightarrow>
          (case GetGeneralState scanResultStatus of
             None \<Rightarrow>
               Some (Inr ((None, Some (''cannot determine state of ScanResult with id '' @
                             scanResultID data)), data, [], b))
           | Some INIT \<Rightarrow>
               (case runJob config scanConfig backendClient providerClient familiesYaml data b of
                  ((job, Some err), acts, b') \<Rightarrow>
                    Some (Inr ((None, Some (''failed to run scan job for target '' @
                                  TargetID (targetInstance data) @ '': '' @ err)),
                               data\<lparr>success := False, completed := True\<rparr>, acts, b'))
                | ((job, None), acts, b') \<Rightarrow>
                    handleScanData_wait backendClient events job data acts b')
           | Some ATTACHED \<Rightarrow> handleScanData_wait backendClient events emptyJob data [] b
           | Some INPROGRESS \<Rightarrow> handleScanData_wait backendClient events emptyJob data [] b
           | Some ABORTED \<Rightarrow> handleScanData_wait backendClient events emptyJob data [] b
           | Some _ \<Rightarrow> Some (Inr ((Some emptyJob, None), data, [], b))))"

text \<open>
  The body of the worker's loop for one item of the queue: handle the scan data, record
  a completion error on the target's status when that failed, and hand the job to the
  reaper with the flags of the scan data. The result is the target identifier that the
  worker then sends on the \<open>done\<close> channel. \<open>SetTargetScanStatusCompletionError\<close> is a
  method of the scanner whose source is not among the files; it is a parameter.
\<close>

definition worker_item ::
  "config \<Rightarrow> scanConfig \<Rightarrow> 'b backendClient \<Rightarrow> (string \<Rightarrow> string \<Rightarrow> 'b \<Rightarrow> goerror option \<times> 'b) \<Rightarrow>
   providerClient \<Rightarrow> goerror + string \<Rightarrow> 'b waitEvent list \<Rightarrow> scanData \<Rightarrow> 'b \<Rightarrow>
   (error + string \<times> scanData \<times> action list \<times> 'b) option" where
  "worker_item config scanConfig backendClient SetTargetScanStatusCompletionError
       providerClient familiesYaml events data b =
     (case handleScanData config scanConfig backendClient providerClient familiesYaml events data b of
        None \<Rightarrow> None
      | Some (Inl panic) \<Rightarrow> Some (Inl panic)
      | Some (Inr ((job, err), data', acts, b')) \<Rightarrow>
          let b'' = (case err of
                       None \<Rightarrow> b'
                     | Some e \<Rightarrow> snd (SetTargetScanStatusCompletionError (scanResultID data') e b'))
          in
          Some (Inr (TargetID (targetInstance data'), data',
                     acts @ deleteJobIfNeeded config providerClient job (success data') (completed data'),
                     b'')))"

section \<open>The initial scan result of a target\<close>

text \<open>
  The scan configuration has one optional configuration per analyzer family, each with
  an optional \<open>Enabled\<close> flag. Only that flag is read here.
\<close>

record ExploitsConfig =
  Enabled :: "bool option"

record MalwareConfig =
  Enabled :: "bool option"

record MisconfigurationsConfig =
  Enabled :: "bool option"

record RootkitsConfig =
  Enabled :: "bool option"

record SBOMConfig =
  Enabled :: "bool option"

record SecretsConfig =
  Enabled :: "bool option"

record VulnerabilitiesConfig =
  Enabled :: "bool option"

record ScanFamiliesConfig =
  Exploits :: "ExploitsConfig option"
  Malware :: "MalwareConfig option"
  Misconfigurations :: "MisconfigurationsConfig option"
  Rootkits :: "RootkitsConfig option"
  Sbom :: "SBOMConfig option"
  Secrets :: "SecretsConfig option"
  Vulnerabilities :: "VulnerabilitiesConfig option"

definition stateToPointer :: "TargetScanStateState \<Rightarrow> TargetScanStateState option" where
  "stateToPointer state = Some state"

text \<open>
  The seven functions \<open>getInitScanStatus...StateFromEnabled\<close> have the same body:
  \<open>config == nil || config.Enabled == nil || !*config.Enabled\<close>, evaluated from the left.
\<close>

definition getInitScanStatusVulnerabilitiesStateFromEnabled ::
  "VulnerabilitiesConfig option \<Rightarrow> TargetScanStateState option" where
  "getInitScanStatusVulnerabilitiesStateFromEnabled config =
     (case config of
        None \<Rightarrow> stateToPointer NOTSCANNED
      | Some c \<Rightarrow>
          (case VulnerabilitiesConfig.Enabled c of
             None \<Rightarrow> stateToPointer NOTSCANNED
           | Some enabled \<Rightarrow>
               if \<not> enabled then stateToPointer NOTSCANNED else stateToPointer INIT))"

definition getInitScanStatusSecretsStateFromEnabled ::
  "SecretsConfig option \<Rightarrow> TargetScanStateState option" where
  "getInitScanStatusSecretsStateFromEnabled config =
     (case config of
        None \<Rightarrow> stateToPointer NOTSCANNED
      | Some c \<Rightarrow>
          (case SecretsConfig.Enabled c of
             None \<Rightarrow> stateToPointer NOTSCANNED
           | Some enabled \<Rightarrow>
               if \<not> enabled then stateToPointer NOTSCANNED else stateToPointer INIT))"

definition getInitScanStatusSbomStateFromEnabled ::
  "SBOMConfig option \<Rightarrow> TargetScanStateState option" where
  "getInitScanStatusSbomStateFromEnabled config =
     (case config of
        None \<Rightarrow> stateToPointer NOTSCANNED
      | Some c \<Rightarrow>
          (case SBOMConfig.Enabled c of
             None \<Rightarrow> stateToPointer NOTSCANNED
           | Some enabled \<Rightarrow>
               if \<not> enabled then stateToPointer NOTSCANNED else stateToPointer INIT))"

definition getInitScanStatusRootkitsStateFromEnabled ::
  "RootkitsConfig option \<Rightarrow> TargetScanStateState option" where
  "getInitScanStatusRootkitsStateFromEnabled config =
     (case config of
        None \<Rightarrow> stateToPointer NOTSCANNED
      | Some c \<Rightarrow>
          (case RootkitsConfig.Enabled c of
             None \<Rightarrow> stateToPointer NOTSCANNED
           | Some enabled \<Rightarrow>
               if \<not> enabled then stateToPointer NOTSCANNED else stateToPointer INIT))"

definition getInitScanStatusMisconfigurationsStateFromEnabled ::
  "MisconfigurationsConfig option \<Rightarrow> TargetScanStateState option" where
  "getInitScanStatusMisconfigurationsStateFromEnabled config =
     (case config of
        None \<Rightarrow> stateToPointer NOTSCANNED
      | Some c \<Rightarrow>
          (case MisconfigurationsConfig.Enabled c of
             None \<Rightarrow> stateToPointer NOTSCANNED
           | Some enabled \<Rightarrow>
               if \<not> enabled then stateToPointer NOTSCANNED else stateToPointer INIT))"

definition getInitScanStatusMalwareStateFromEnabled ::
  "MalwareConfig option \<Rightarrow> TargetScanStateState option" where
  "getInitScanStatusMalwareStateFromEnabled config =
     (case config of
        None \<Rightarrow> stateToPointer NOTSCANNED
      | Some c \<Rightarrow>
          (case MalwareConfig.Enabled c of
             None \<Rightarrow> stateToPointer NOTSCANNED
           | Some enabled \<Rightarrow>
               if \<not> enabled then stateToPointer NOTSCANNED else stateToPointer INIT))"

definition getInitScanStatusExploitsStateFromEnabled ::
  "ExploitsConfig option \<Rightarrow> TargetScanStateState option" where
  "getInitScanStatusExploitsStateFromEnabled config =
     (case config of
        None \<Rightarrow> stateToPointer NOTSCANNED
      | Some c \<Rightarrow>
          (case ExploitsConfig.Enabled c of
             None \<Rightarrow> stateToPointer NOTSCANNED
           | Some enabled \<Rightarrow>
               if \<not> enabled then stateToPointer NOTSCANNED else stateToPointer INIT))"

definition createInitScanResultSummary :: ScanFindingsSummary where
  "createInitScanResultSummary =
     \<lparr>ScanFindingsSummary.TotalExploits = Some 0,
      ScanFindingsSummary.TotalMalware = Some 0,
      ScanFindingsSummary.TotalMisconfigurations = Some 0,
      ScanFindingsSummary.TotalPackages = Some 0,
      ScanFindingsSummary.TotalRootkits = Some 0,
      ScanFindingsSummary.TotalSecrets = Some 0,
      ScanFindingsSummary.TotalVulnerabilities = Some
        \<lparr>TotalCriticalVulnerabilities = Some 0,
         TotalHighVulnerabilities = Some 0,
         TotalLowVulnerabilities = Some 0,
         TotalMediumVulnerabilities = Some 0,
         TotalNegligibleVulnerabilities = Some 0\<rparr>\<rparr>"

text \<open>
  The first half of \<open>createInitTargetScanStatus\<close>: the scan result that it builds and
  then posts.
\<close>

definition initScanStatus :: "ScanFamiliesConfig \<Rightarrow> TargetScanStatus" where
  "initScanStatus families =
     \<lparr>TargetScanStatus.Exploits = Some
        \<lparr>Errors = None,
         TargetScanState.State =
           getInitScanStatusExploitsStateFromEnabled (ScanFamiliesConfig.Exploits families)\<rparr>,
      General = Some \<lparr>Errors = None, TargetScanState.State = stateToPointer INIT\<rparr>,
      TargetScanStatus.Malware = Some
        \<lparr>Errors = None,
         TargetScanState.State =
           getInitScanStatusMalwareStateFromEnabled (ScanFamiliesConfig.Malware families)\<rparr>,
      TargetScanStatus.Misconfigurations = Some
        \<lparr>Errors = None,
         TargetScanState.State =
           getInitScanStatusMisconfigurationsStateFromEnabled
             (ScanFamiliesConfig.Misconfigurations families)\<rparr>,
      TargetScanStatus.Rootkits = Some
        \<lparr>Errors = None,
         TargetScanState.State =
           getInitScanStatusRootkitsStateFromEnabled (ScanFamiliesConfig.Rootkits families)\<rparr>,
      TargetScanStatus.Sbom = Some
        \<lparr>Errors = None,
         TargetScanState.State =
           getInitScanStatusSbomStateFromEnabled (ScanFamiliesConfig.Sbom families)\<rparr>,
      TargetScanStatus.Secrets = Some
        \<lparr>Errors = None,
         TargetScanState.State =
           getInitScanStatusSecretsStateFromEnabled (ScanFamiliesConfig.Secrets families)\<rparr>,
      TargetScanStatus.Vulnerabilities = Some
        \<lparr>Errors = None,
         TargetScanState.State =
           getInitScanStatusVulnerabilitiesStateFromEnabled
             (ScanFamiliesConfig.Vulnerabilities families)\<rparr>\<rparr>"

definition initScanResult :: "ScanFamiliesConfig \<Rightarrow> string \<Rightarrow> string \<Rightarrow> TargetScanResult" where
  "initScanResult families scanID targetID =
     \<lparr>TargetScanResult.Id = None,
      TargetScanResult.Summary = Some createInitScanResultSummary,
      Scan = Some \<lparr>ScanRelationship.Id = scanID\<rparr>,
      Status = Some (initScanStatus families),
      Target = Some \<lparr>TargetRelationship.Id = targetID\<rparr>\<rparr>"

text \<open>
  \<open>createInitTargetScanStatus\<close>: post the scan result; on a conflict error return the
  identifier of the conflicting scan result and no error. Both identifiers are
  dereferenced, so a nil identifier is a panic.
\<close>

definition createInitTargetScanStatus ::
  "'b backendClient \<Rightarrow> ScanFamiliesConfig \<Rightarrow> string \<Rightarrow> string \<Rightarrow> 'b \<Rightarrow> (error + string) \<times> 'b" where
  "createInitTargetScanStatus backendClient families scanID targetID b =
     (case PostScanResult backendClient (initScanResult families scanID targetID) b of
        (Inl (ScanResultConflictError conflictingScanResult), b') \<Rightarrow>
          (case TargetScanResult.Id conflictingScanResult of
             None \<Rightarrow> (Inl NilPointerDereference, b')
           | Some i \<Rightarrow> (Inr i, b'))
      | (Inl (OtherError err), b') \<Rightarrow>
          (Inl (Error (''failed to post scan result: '' @ err)), b')
      | (Inr createdScanResult, b') \<Rightarrow>
          (case TargetScanResult.Id createdScanResult of
             None \<Rightarrow> (Inl NilPointerDereference, b')
           | Some i \<Rightarrow> (Inr i, b')))"

section \<open>The scan controller\<close>

text \<open>
  The loop of \<open>jobBatchManagement\<close> that consumes the completions. Its \<open>select\<close> takes
  either a target identifier from the \<open>done\<close> channel or the kill signal; each event
  carries the time that \<open>time.Now()\<close> returns while it is handled. The map
  \<open>targetIDToScanData\<close> is an association list with distinct keys, holding the scan data
  as the workers have left them; its \<open>len\<close> is the length of the list, as a Go \<open>int\<close>.
  The spawning of the workers and the dispatch on the queue are not part of this model.
\<close>

datatype controllerEvent = Done string time | KillSignal time

record controller =
  anyJobsFailed :: bool
  numberOfCompletedJobs :: goint
  scanComplete :: bool

definition emptyScan :: Scan where
  "emptyScan =
     \<lparr>EndTime = None, Scan.State = None, StateMessage = None, StateReason = None,
      Scan.Summary = None\<rparr>"

text \<open>
  The block that runs when the number of completed jobs has reached the number of
  targets. Each \<open>break\<close> in it leaves the \<open>select\<close>, not the loop, so the scan is
  patched after every branch.
\<close>

definition terminalScan :: "Scan \<Rightarrow> bool \<Rightarrow> time \<Rightarrow> Scan" where
  "terminalScan scan0 failed now =
     (let scan = scan0\<lparr>EndTime := Some now\<rparr> in
      case Scan_GetState scan of
        None \<Rightarrow>
          scan\<lparr>Scan.State := Some ScanStateFailed,
               StateMessage := Some ''Failed to retrieve scan state'',
               StateReason := Some ScanStateReasonUnexpected\<rparr>
      | Some scanState \<Rightarrow>
          if scanState = ScanStateAborted then
            scan\<lparr>Scan.State := Some ScanStateFailed,
                 StateMessage := Some ''User initiated'',
                 StateReason := Some ScanStateReasonAborted\<rparr>
          else if failed then
            scan\<lparr>Scan.State := Some ScanStateFailed,
                 StateMessage := Some ''One or more ScanJobs failed'',
                 StateReason := Some ScanStateReasonOneOrMoreTargetFailedToScan\<rparr>
          else
            scan\<lparr>Scan.State := Some ScanStateDone,
                 StateMessage := Some ''All scan jobs completed'',
                 StateReason := Some ScanStateReasonSuccess\<rparr>)"

definition canceledScan :: "time \<Rightarrow> Scan" where
  "canceledScan t =
     \<lparr>EndTime = Some t, Scan.State = Some ScanStateFailed,
      StateMessage = Some ''Scan was canceled or timed out'',
      StateReason = Some ScanStateReasonTimedOut, Scan.Summary = None\<rparr>"

text \<open>
  One iteration of the loop: the new controller variables, the scan that is patched and
  the backend after the patch. An error of \<open>PatchScan\<close> is only logged. The iteration
  panics when the target identifier is not in the map, or when the update of the summary
  dereferences a nil pointer.
\<close>

definition jobBatchManagement_select ::
  "'b backendClient \<Rightarrow> string \<Rightarrow> (string \<times> scanData) list \<Rightarrow> controllerEvent \<Rightarrow>
   controller \<Rightarrow> 'b \<Rightarrow> error + controller \<times> Scan \<times> 'b" where
  "jobBatchManagement_select backendClient scanID targetIDToScanData event c b =
     (case event of
        Done targetID now \<Rightarrow>
          let n = numberOfCompletedJobs c + 1 in
          (case map_of targetIDToScanData targetID of
             None \<Rightarrow> Inl NilPointerDereference
           | Some data \<Rightarrow>
               let failed = (if \<not> success data then True else anyJobsFailed c) in
               (case createScanWithUpdatedSummary backendClient scanID data b of
                  Inl NilPointerDereference \<Rightarrow> Inl NilPointerDereference
                | r \<Rightarrow>
                    let scan = (case r of Inr updated \<Rightarrow> updated | Inl err \<Rightarrow> emptyScan);
                        complete = (n = of_nat (length targetIDToScanData));
                        scan = (if complete then terminalScan scan failed now else scan)
                    in
                    Inr (\<lparr>anyJobsFailed = failed, numberOfCompletedJobs = n,
                          scanComplete = complete\<rparr>,
                         scan, snd (PatchScan backendClient scanID scan b))))
      | KillSignal t \<Rightarrow>
          let scan = canceledScan t in
          Inr (c\<lparr>scanComplete := True\<rparr>, scan, snd (PatchScan backendClient scanID scan b)))"

text \<open>
  The loop \<open>for !scanComplete\<close>. The result lists the scans that were patched, in order.
  \<open>None\<close> says that the loop is still waiting when the events are used up.
\<close>

fun jobBatchManagement_loop ::
  "'b backendClient \<Rightarrow> string \<Rightarrow> (string \<times> scanData) list \<Rightarrow> controllerEvent list \<Rightarrow>
   controller \<Rightarrow> 'b \<Rightarrow> (error + Scan list \<times> controller \<times> 'b) option" where
  "jobBatchManagement_loop backendClient scanID targetIDToScanData [] c b = None"
| "jobBatchManagement_loop backendClient scanID targetIDToScanData (event # events) c b =
     (case jobBatchManagement_select backendClient scanID targetIDToScanData event c b of
        Inl panic \<Rightarrow> Some (Inl panic)
      | Inr (c', scan, b') \<Rightarrow>
          if scanComplete c' then Some (Inr ([scan], c', b'))
          else
            (case jobBatchManagement_loop backendClient scanID targetIDToScanData events c' b' of
               None \<Rightarrow> None
             | Some (Inl panic) \<Rightarrow> Some (Inl panic)
             | Some (Inr (scans, r)) \<Rightarrow> Some (Inr (scan # scans, r))))"

definition jobBatchManagement ::
  "'b backendClient \<Rightarrow> string \<Rightarrow> (string \<times> scanData) list \<Rightarrow> controllerEvent list \<Rightarrow> 'b \<Rightarrow>
   (error + Scan list \<times> controller \<times> 'b) option" where
  "jobBatchManagement backendClient scanID targetIDToScanData events b =
     jobBatchManagement_loop backendClient scanID targetIDToScanData events
       \<lparr>anyJobsFailed = False, numberOfCompletedJobs = 0, scanComplete = False\<rparr> b"

section \<open>The vocabulary of the properties\<close>

text \<open>
  A sub-state has errors when its error list is present and not empty; a status has
  errors on some sub-state when the general state or the state of one of the seven
  analyzer families has.
\<close>

definition subStateHasErrors :: "TargetScanState option \<Rightarrow> bool" where
  "subStateHasErrors subState =
     (case subState of
        None \<Rightarrow> False
      | Some s \<Rightarrow> (case Errors s of None \<Rightarrow> False | Some errs \<Rightarrow> errs \<noteq> []))"

definition statusHasErrorsOnAnySubState :: "TargetScanStatus \<Rightarrow> bool" where
  "statusHasErrorsOnAnySubState status =
     (subStateHasErrors (General status)
      \<or> subStateHasErrors (TargetScanStatus.Exploits status)
      \<or> subStateHasErrors (TargetScanStatus.Malware status)
      \<or> subStateHasErrors (TargetScanStatus.Misconfigurations status)
      \<or> subStateHasErrors (TargetScanStatus.Rootkits status)
      \<or> subStateHasErrors (TargetScanStatus.Sbom status)
      \<or> subStateHasErrors (TargetScanStatus.Secrets status)
      \<or> subStateHasErrors (TargetScanStatus.Vulnerabilities status))"

text \<open>
  The events on which the waiter returns: a tick whose status read succeeds with the
  general state \<open>DONE\<close> or \<open>NOTSCANNED\<close>; the end of the wait's context, for either
  cause, the expiry of the job-result timeout or the end of the caller's context; the
  kill signal.
\<close>

definition returningEvent :: "'b backendClient \<Rightarrow> scanData \<Rightarrow> 'b waitEvent \<Rightarrow> bool" where
  "returningEvent backendClient data event =
     (case event of
        TimerC b' \<Rightarrow>
          (case GetScanResultStatus backendClient (scanResultID data) b' of
             Inl err \<Rightarrow> False
           | Inr status \<Rightarrow>
               GetGeneralState status = Some DONE \<or> GetGeneralState status = Some NOTSCANNED)
      | CtxDone JobResultTimeoutExpired \<Rightarrow> True
      | CtxDone CallerContextDone \<Rightarrow> True
      | Ks \<Rightarrow> True)"

text \<open>
  The three causes of a return that the narrower reading names: a tick that observes
  \<open>DONE\<close> or \<open>NOTSCANNED\<close>, the expiry of the job-result timeout, the kill signal. The
  end of the caller's context is not among them.
\<close>

definition returnsOnTimeoutOnly :: "'b backendClient \<Rightarrow> scanData \<Rightarrow> 'b waitEvent \<Rightarrow> bool" where
  "returnsOnTimeoutOnly backendClient data event =
     (case event of
        TimerC b' \<Rightarrow>
          (case GetScanResultStatus backendClient (scanResultID data) b' of
             Inl err \<Rightarrow> False
           | Inr status \<Rightarrow>
               GetGeneralState status = Some DONE \<or> GetGeneralState status = Some NOTSCANNED)
      | CtxDone JobResultTimeoutExpired \<Rightarrow> True
      | CtxDone CallerContextDone \<Rightarrow> False
      | Ks \<Rightarrow> True)"

text \<open>
  The invariant of the job counters: the summary and both counters are present, and
  \<open>jobsCompleted + jobsLeftToRun\<close> is the number of targets.
\<close>

definition jobsCountInvariant :: "goint \<Rightarrow> Scan \<Rightarrow> bool" where
  "jobsCountInvariant totalTargets scan =
     (case Scan.Summary scan of
        None \<Rightarrow> False
      | Some summary \<Rightarrow>
          (case JobsCompleted summary of
             None \<Rightarrow> False
           | Some jobsCompleted \<Rightarrow>
               (case JobsLeftToRun summary of
                  None \<Rightarrow> False
                | Some jobsLeftToRun \<Rightarrow> jobsCompleted + jobsLeftToRun = totalTargets)))"

section \<open>An in-memory backend and example values\<close>

text \<open>
  Modelled from the spec: a backend store, which is not among the source files. It
  holds one scan and the scan results. \<open>PatchScan\<close> and \<open>PatchTargetScanStatus\<close> write
  the fields that are supplied and keep the others; \<open>PostScanResult\<close> answers a scan
  result for a scan and target that already have one with a conflict carrying the
  existing result, and otherwise stores the result under a new identifier. The
  theorems below hold for every backend client; this one instantiates them.
\<close>

record store =
  storedScan :: Scan
  storedResults :: "TargetScanResult list"

definition patched :: "'a option \<Rightarrow> 'a option \<Rightarrow> 'a option" where
  "patched supplied old = (case supplied of None \<Rightarrow> old | Some v \<Rightarrow> Some v)"

definition patchedScan :: "Scan \<Rightarrow> Scan \<Rightarrow> Scan" where
  "patchedScan supplied old =
     \<lparr>EndTime = patched (EndTime supplied) (EndTime old),
      Scan.State = patched (Scan.State supplied) (Scan.State old),
      StateMessage = patched (StateMessage supplied) (StateMessage old),
      StateReason = patched (StateReason supplied) (StateReason old),
      Scan.Summary = patched (Scan.Summary supplied) (Scan.Summary old)\<rparr>"

definition patchedStatus :: "TargetScanStatus \<Rightarrow> TargetScanStatus \<Rightarrow> TargetScanStatus" where
  "patchedStatus supplied old =
     \<lparr>TargetScanStatus.Exploits =
        patched (TargetScanStatus.Exploits supplied) (TargetScanStatus.Exploits old),
      General = patched (General supplied) (General old),
      TargetScanStatus.Malware =
        patched (TargetScanStatus.Malware supplied) (TargetScanStatus.Malware old),
      TargetScanStatus.Misconfigurations =
        patched (TargetScanStatus.Misconfigurations supplied) (TargetScanStatus.Misconfigurations old),
      TargetScanStatus.Rootkits =
        patched (TargetScanStatus.Rootkits supplied) (TargetScanStatus.Rootkits old),
      TargetScanStatus.Sbom = patched (TargetScanStatus.Sbom supplied) (TargetScanStatus.Sbom old),
      TargetScanStatus.Secrets =
        patched (TargetScanStatus.Secrets supplied) (TargetScanStatus.Secrets old),
      TargetScanStatus.Vulnerabilities =
        patched (TargetScanStatus.Vulnerabilities supplied) (TargetScanStatus.Vulnerabilities old)\<rparr>"

definition sameScanAndTarget :: "TargetScanResult \<Rightarrow> TargetScanResult \<Rightarrow> bool" where
  "sameScanAndTarget r r' = (Scan r = Scan r' \<and> Target r = Target r')"

definition newScanResultID :: "TargetScanResult \<Rightarrow> string" where
  "newScanResultID r =
     (case Scan r of None \<Rightarrow> [] | Some s \<Rightarrow> ScanRelationship.Id s) @ ''/'' @
     (case Target r of None \<Rightarrow> [] | Some t \<Rightarrow> TargetRelationship.Id t)"

definition storeClient :: "store backendClient" where
  "storeClient =
     \<lparr>GetScan = (\<lambda>scanID st. Inr (storedScan st)),
      PatchScan = (\<lambda>scanID scan st. (None, st\<lparr>storedScan := patchedScan scan (storedScan st)\<rparr>)),
      GetScanResultSummary = (\<lambda>resultID st.
        case find (\<lambda>r. TargetScanResult.Id r = Some resultID) (storedResults st) of
          None \<Rightarrow> Inl ''not found''
        | Some r \<Rightarrow>
            (case TargetScanResult.Summary r of None \<Rightarrow> Inl ''no summary'' | Some s \<Rightarrow> Inr s)),
      GetScanResultStatus = (\<lambda>resultID st.
        case find (\<lambda>r. TargetScanResult.Id r = Some resultID) (storedResults st) of
          None \<Rightarrow> Inl ''not found''
        | Some r \<Rightarrow> (case Status r of None \<Rightarrow> Inl ''no status'' | Some s \<Rightarrow> Inr s)),
      PostScanResult = (\<lambda>scanResult st.
        case find (sameScanAndTarget scanResult) (storedResults st) of
          Some existing \<Rightarrow> (Inl (ScanResultConflictError existing), st)
        | None \<Rightarrow>
            (Inr (scanResult\<lparr>TargetScanResult.Id := Some (newScanResultID scanResult)\<rparr>),
             st\<lparr>storedResults := storedResults st @
                  [scanResult\<lparr>TargetScanResult.Id := Some (newScanResultID scanResult)\<rparr>]\<rparr>)),
      PatchTargetScanStatus = (\<lambda>resultID status st.
        (None, st\<lparr>storedResults :=
           map (\<lambda>r. if TargetScanResult.Id r = Some resultID
                      then r\<lparr>Status := Some (case Status r of
                                                  None \<Rightarrow> status
                                                | Some old \<Rightarrow> patchedStatus status old)\<rparr>
                      else r) (storedResults st)\<rparr>))\<rparr>"

text \<open>
  The examples: a scan \<open>scan-1\<close> of two targets in \<open>us-east-1\<close>, scanned from
  \<open>us-west-2\<close>, so that the snapshot of a target is copied across regions.
\<close>

definition exampleFamilies :: ScanFamiliesConfig where
  "exampleFamilies =
     \<lparr>ScanFamiliesConfig.Exploits = None,
      ScanFamiliesConfig.Malware = Some \<lparr>MalwareConfig.Enabled = None\<rparr>,
      ScanFamiliesConfig.Misconfigurations = Some \<lparr>MisconfigurationsConfig.Enabled = Some False\<rparr>,
      ScanFamiliesConfig.Rootkits = None,
      ScanFamiliesConfig.Sbom = Some \<lparr>SBOMConfig.Enabled = Some True\<rparr>,
      ScanFamiliesConfig.Secrets = None,
      ScanFamiliesConfig.Vulnerabilities = Some \<lparr>VulnerabilitiesConfig.Enabled = Some True\<rparr>\<rparr>"

definition exampleInstance :: Instance where
  "exampleInstance =
     \<lparr>InstanceID = ''i-target'', InstanceRegion = ''us-east-1'', AvailabilityZone = ''us-east-1a''\<rparr>"

definition exampleData :: "string \<Rightarrow> bool \<Rightarrow> bool \<Rightarrow> scanData" where
  "exampleData targetID ok finished =
     \<lparr>targetInstance = \<lparr>TargetID = targetID, TargetInstance.Instance = exampleInstance\<rparr>,
      scanResultID = ''scan-1/'' @ targetID, success = ok, completed = finished, timeout = False\<rparr>"

definition exampleFindings :: "goint \<Rightarrow> goint \<Rightarrow> ScanFindingsSummary" where
  "exampleFindings packages negligible =
     \<lparr>ScanFindingsSummary.TotalExploits = Some 0,
      ScanFindingsSummary.TotalMalware = Some 0,
      ScanFindingsSummary.TotalMisconfigurations = Some 0,
      ScanFindingsSummary.TotalPackages = Some packages,
      ScanFindingsSummary.TotalRootkits = Some 0,
      ScanFindingsSummary.TotalSecrets = Some 0,
      ScanFindingsSummary.TotalVulnerabilities = Some
        \<lparr>TotalCriticalVulnerabilities = Some 0,
         TotalHighVulnerabilities = Some 0,
         TotalLowVulnerabilities = Some 0,
         TotalMediumVulnerabilities = Some 0,
         TotalNegligibleVulnerabilities = Some negligible\<rparr>\<rparr>"

definition exampleStatus ::
  "TargetScanStateState \<Rightarrow> string list option \<Rightarrow> string list option \<Rightarrow> TargetScanStatus" where
  "exampleStatus general generalErrors sbomErrors =
     \<lparr>TargetScanStatus.Exploits = None,
      General = Some \<lparr>Errors = generalErrors, TargetScanState.State = Some general\<rparr>,
      TargetScanStatus.Malware = None,
      TargetScanStatus.Misconfigurations = None,
      TargetScanStatus.Rootkits = None,
      TargetScanStatus.Sbom = Some \<lparr>Errors = sbomErrors, TargetScanState.State = Some DONE\<rparr>,
      TargetScanStatus.Secrets = None,
      TargetScanStatus.Vulnerabilities = None\<rparr>"

definition exampleResult ::
  "string \<Rightarrow> ScanFindingsSummary \<Rightarrow> TargetScanStatus \<Rightarrow> TargetScanResult" where
  "exampleResult targetID findings status =
     \<lparr>TargetScanResult.Id = Some (''scan-1/'' @ targetID),
      TargetScanResult.Summary = Some findings,
      Scan = Some \<lparr>ScanRelationship.Id = ''scan-1''\<rparr>,
      Status = Some status,
      Target = Some \<lparr>TargetRelationship.Id = targetID\<rparr>\<rparr>"

definition exampleSummary :: "goint \<Rightarrow> goint \<Rightarrow> goint \<Rightarrow> goint \<Rightarrow> goint \<Rightarrow> ScanSummary" where
  "exampleSummary jobsCompleted jobsLeftToRun packages critical negligible =
     \<lparr>JobsCompleted = Some jobsCompleted, JobsLeftToRun = Some jobsLeftToRun,
      ScanSummary.TotalExploits = Some 0, ScanSummary.TotalMalware = Some 0,
      ScanSummary.TotalMisconfigurations = Some 0, ScanSummary.TotalPackages = Some packages,
      ScanSummary.TotalRootkits = Some 0, ScanSummary.TotalSecrets = Some 0,
      ScanSummary.TotalVulnerabilities = Some
        \<lparr>TotalCriticalVulnerabilities = Some critical,
         TotalHighVulnerabilities = Some 0,
         TotalLowVulnerabilities = Some 0,
         TotalMediumVulnerabilities = Some 0,
         TotalNegligibleVulnerabilities = Some negligible\<rparr>\<rparr>"

definition exampleScan ::
  "time option \<Rightarrow> ScanState \<Rightarrow> string option \<Rightarrow> ScanStateReason option \<Rightarrow> ScanSummary \<Rightarrow> Scan" where
  "exampleScan endTime state message reason summary =
     \<lparr>EndTime = endTime, Scan.State = Some state, StateMessage = message,
      StateReason = reason, Scan.Summary = Some summary\<rparr>"

text \<open>
  The store while the scan runs: no job counted yet, five critical and two negligible
  vulnerabilities on record, and the results of both targets reported \<open>DONE\<close>; the
  second with an error of the SBOM family only.
\<close>

definition exampleStore :: store where
  "exampleStore =
     \<lparr>storedScan = exampleScan None ScanStateInProgress None None (exampleSummary 0 2 0 5 2),
      storedResults =
        [exampleResult ''target-1'' (exampleFindings 7 1) (exampleStatus DONE None None),
         exampleResult ''target-2'' (exampleFindings 3 0)
           (exampleStatus DONE None (Some [''syft failed'']))]\<rparr>"

definition exampleTargets :: "(string \<times> scanData) list" where
  "exampleTargets =
     [(''target-1'', exampleData ''target-1'' True True),
      (''target-2'', exampleData ''target-2'' False True)]"

text \<open>The store right after the initial scan result of the first target was posted.\<close>

definition exampleInitStore :: store where
  "exampleInitStore =
     \<lparr>storedScan = exampleScan None ScanStateInProgress None None (exampleSummary 0 2 0 0 0),
      storedResults =
        [(initScanResult exampleFamilies ''scan-1'' ''target-1'')
           \<lparr>TargetScanResult.Id := Some ''scan-1/target-1''\<rparr>]\<rparr>"

definition exampleConfig :: config where
  "exampleConfig =
     \<lparr>Region = ''us-west-2'', DeleteJobPolicy = DeleteJobPolicyOnSuccess, DeviceName = ''xvdh'',
      config.ScannerImage = ''scanner:latest'', ScannerBackendAddress = ''10.0.0.1:8888'',
      ScannerKeyPairName = ''key''\<rparr>"

definition exampleScanConfig :: scanConfig where
  "exampleScanConfig = \<lparr>scanConfig.ScannerInstanceCreationConfig = None\<rparr>"

definition exampleSnapshot :: Snapshot where
  "exampleSnapshot = \<lparr>SnapshotID = ''snap-1'', SnapshotRegion = ''us-east-1''\<rparr>"

definition exampleCopy :: Snapshot where
  "exampleCopy = \<lparr>SnapshotID = ''snap-2'', SnapshotRegion = ''us-west-2''\<rparr>"

definition exampleScanner :: Instance where
  "exampleScanner =
     \<lparr>InstanceID = ''i-scanner'', InstanceRegion = ''us-west-2'', AvailabilityZone = ''us-west-2a''\<rparr>"

definition exampleVolume :: Volume where
  "exampleVolume = \<lparr>VolumeID = ''vol-1''\<rparr>"

text \<open>A provider whose every call succeeds.\<close>

definition exampleProvider :: providerClient where
  "exampleProvider =
     \<lparr>GetRootVolume = (\<lambda>i. Inr \<lparr>VolumeID = ''vol-root''\<rparr>),
      TakeSnapshot = (\<lambda>v. Inr exampleSnapshot),
      Snapshot_WaitForReady = (\<lambda>s t. None),
      Snapshot_Copy = (\<lambda>s region. Inr (exampleCopy\<lparr>SnapshotRegion := region\<rparr>)),
      RunScanningJob = (\<lambda>region snapshotID jobConfig.
        Inr (exampleScanner\<lparr>InstanceRegion := region, AvailabilityZone := region @ ''a''\<rparr>)),
      CreateVolume = (\<lambda>s zone. Inr exampleVolume),
      Instance_WaitForReady = (\<lambda>i. None),
      Volume_WaitForReady = (\<lambda>v. None),
      AttachVolume = (\<lambda>i v device. None),
      WaitForAttached = (\<lambda>v. None),
      Instance_Delete = (\<lambda>i. None),
      Snapshot_Delete = (\<lambda>s. None),
      Volume_Delete = (\<lambda>v. None)\<rparr>"

text \<open>The job of a target once all its resources are provisioned.\<close>

definition exampleJob :: Job where
  "exampleJob =
     \<lparr>Job.Instance = Some exampleScanner, SrcSnapshot = Some exampleSnapshot,
      DstSnapshot = Some exampleCopy, Job.Volume = Some exampleVolume\<rparr>"

section \<open>Lemmas about the model\<close>

lemmas example_defs =
  exampleFamilies_def exampleInstance_def exampleData_def exampleFindings_def exampleStatus_def
  exampleResult_def exampleSummary_def exampleScan_def exampleStore_def exampleTargets_def
  exampleInitStore_def exampleConfig_def exampleScanConfig_def exampleSnapshot_def
  exampleCopy_def exampleScanner_def exampleVolume_def exampleProvider_def exampleJob_def

lemmas store_defs =
  storeClient_def patched_def patchedScan_def patchedStatus_def sameScanAndTarget_def
  newScanResultID_def

lemma deletions_append: "deletions (xs @ ys) = deletions xs @ deletions ys"
  by (induction xs rule: deletions.induct) simp_all

lemma updateSummary_jobs:
  assumes "updateSummary summary scanResultSummary = Some summary'"
  shows "\<exists>jc jl. JobsCompleted summary = Some jc \<and> JobsLeftToRun summary = Some jl
           \<and> JobsCompleted summary' = Some (jc + 1) \<and> JobsLeftToRun summary' = Some (jl - 1)"
  using assms
  by (auto simp: updateSummary_def Let_def split: Option.bind_splits)

lemma createScanWithUpdatedSummary_Inr:
  assumes "createScanWithUpdatedSummary backendClient scanID data b = Inr scan'"
  shows "\<exists>scan scanResultSummary summary summary'.
           GetScan backendClient scanID b = Inr scan
           \<and> GetScanResultSummary backendClient (scanResultID data) b = Inr scanResultSummary
           \<and> Scan.Summary scan = Some summary
           \<and> updateSummary summary scanResultSummary = Some summary'
           \<and> scan' = scan\<lparr>Scan.Summary := Some summary'\<rparr>"
  using assms
  by (auto simp: createScanWithUpdatedSummary_def split: sum.splits option.splits)

lemma createScanWithUpdatedSummary_jobs:
  assumes "createScanWithUpdatedSummary backendClient scanID data b = Inr scan'"
  shows "\<exists>scan summary summary' jc jl.
           GetScan backendClient scanID b = Inr scan
           \<and> Scan.Summary scan = Some summary
           \<and> JobsCompleted summary = Some jc \<and> JobsLeftToRun summary = Some jl
           \<and> Scan.Summary scan' = Some summary'
           \<and> JobsCompleted summary' = Some (jc + 1) \<and> JobsLeftToRun summary' = Some (jl - 1)
           \<and> (jc + 1) + (jl - 1) = jc + jl"
proof -
  from createScanWithUpdatedSummary_Inr [OF assms]
  obtain scan scanResultSummary summary summary' where
    r: "GetScan backendClient scanID b = Inr scan" "Scan.Summary scan = Some summary"
       "updateSummary summary scanResultSummary = Some summary'"
       "scan' = scan\<lparr>Scan.Summary := Some summary'\<rparr>"
    by blast
  from updateSummary_jobs [OF r(3)] obtain jc jl where
    "JobsCompleted summary = Some jc" "JobsLeftToRun summary = Some jl"
    "JobsCompleted summary' = Some (jc + 1)" "JobsLeftToRun summary' = Some (jl - 1)"
    by blast
  with r show ?thesis by simp
qed

lemma createScanWithUpdatedSummary_invariant:
  assumes "createScanWithUpdatedSummary backendClient scanID data b = Inr scan'"
      and "GetScan backendClient scanID b = Inr scan"
      and "jobsCountInvariant totalTargets scan"
  shows "jobsCountInvariant totalTargets scan'"
proof -
  from createScanWithUpdatedSummary_jobs [OF assms(1)] assms(2)
  obtain summary summary' jc jl where
    "Scan.Summary scan = Some summary" "JobsCompleted summary = Some jc"
    "JobsLeftToRun summary = Some jl" "Scan.Summary scan' = Some summary'"
    "JobsCompleted summary' = Some (jc + 1)" "JobsLeftToRun summary' = Some (jl - 1)"
    by auto
  with assms(3) show ?thesis by (simp add: jobsCountInvariant_def)
qed

lemma terminalScan_Summary: "Scan.Summary (terminalScan scan failed now) = Scan.Summary scan"
  by (simp add: terminalScan_def Let_def Scan_GetState_def split: option.splits)

lemma terminalScan_state:
  "EndTime (terminalScan scan failed now) = Some now
   \<and> (Scan.State (terminalScan scan failed now), StateReason (terminalScan scan failed now)) =
     (case Scan_GetState scan of
        None \<Rightarrow> (Some ScanStateFailed, Some ScanStateReasonUnexpected)
      | Some ScanStateAborted \<Rightarrow> (Some ScanStateFailed, Some ScanStateReasonAborted)
      | Some _ \<Rightarrow>
          if failed then (Some ScanStateFailed, Some ScanStateReasonOneOrMoreTargetFailedToScan)
          else (Some ScanStateDone, Some ScanStateReasonSuccess))"
  by (simp add: terminalScan_def Let_def Scan_GetState_def split: option.splits ScanState.splits)

lemma jobBatchManagement_select_Done:
  assumes "jobBatchManagement_select backendClient scanID targetIDToScanData (Done targetID now) c b
             = Inr (c', scan, b')"
  shows "\<exists>data scan0. map_of targetIDToScanData targetID = Some data
           \<and> scan0 = (case createScanWithUpdatedSummary backendClient scanID data b of
                        Inr updated \<Rightarrow> updated | Inl err \<Rightarrow> emptyScan)
           \<and> c' = \<lparr>anyJobsFailed = (anyJobsFailed c \<or> \<not> success data),
                    numberOfCompletedJobs = numberOfCompletedJobs c + 1,
                    scanComplete = (numberOfCompletedJobs c + 1 = of_nat (length targetIDToScanData))\<rparr>
           \<and> scan = (if numberOfCompletedJobs c + 1 = of_nat (length targetIDToScanData)
                      then terminalScan scan0 (anyJobsFailed c \<or> \<not> success data) now else scan0)
           \<and> b' = snd (PatchScan backendClient scanID scan b)"
  using assms
  by (auto simp: jobBatchManagement_select_def Let_def split: option.splits sum.splits error.splits)

lemma jobBatchManagement_select_KillSignal:
  "jobBatchManagement_select backendClient scanID targetIDToScanData (KillSignal t) c b
     = Inr (c\<lparr>scanComplete := True\<rparr>, canceledScan t,
            snd (PatchScan backendClient scanID (canceledScan t) b))"
  by (simp add: jobBatchManagement_select_def Let_def)

lemma jobBatchManagement_loop_anyJobsFailed:
  assumes "jobBatchManagement_loop backendClient scanID targetIDToScanData events c b
             = Some (Inr (scans, c', b'))"
  shows "anyJobsFailed c' =
           (anyJobsFailed c \<or>
            (\<exists>targetID t data. Done targetID t \<in> set (take (length scans) events)
               \<and> map_of targetIDToScanData targetID = Some data \<and> \<not> success data))"
  using assms
proof (induction events arbitrary: c b scans)
  case Nil
  then show ?case by simp
next
  case (Cons event events)
  from Cons.prems obtain c1 scan1 b1 where
    step: "jobBatchManagement_select backendClient scanID targetIDToScanData event c b
             = Inr (c1, scan1, b1)"
    by (auto split: sum.splits)
  have here: "anyJobsFailed c1 =
      (anyJobsFailed c \<or>
       (\<exists>targetID t data. event = Done targetID t
          \<and> map_of targetIDToScanData targetID = Some data \<and> \<not> success data))"
  proof (cases event)
    case (Done targetID now)
    with jobBatchManagement_select_Done
      [of backendClient scanID targetIDToScanData targetID now c b c1 scan1 b1]
      step show ?thesis by auto
  next
    case (KillSignal t)
    with step have "c1 = c\<lparr>scanComplete := True\<rparr>"
      by (simp add: jobBatchManagement_select_KillSignal)
    with KillSignal show ?thesis by simp
  qed
  show ?case
  proof (cases "scanComplete c1")
    case True
    with Cons.prems step have "scans = [scan1]" "c' = c1" by simp_all
    with here show ?thesis by auto
  next
    case False
    with Cons.prems step obtain scans' where
      rest: "jobBatchManagement_loop backendClient scanID targetIDToScanData events c1 b1
               = Some (Inr (scans', c', b'))"
      and scans: "scans = scan1 # scans'"
      by (auto split: option.splits sum.splits)
    from Cons.IH [OF rest] here scans show ?thesis by auto
  qed
qed

text \<open>
  One iteration of the controller keeps an invariant \<open>I\<close> of the backend, when every scan
  read in a state with \<open>I\<close> satisfies the invariant of the job counters and \<open>PatchScan\<close>
  keeps \<open>I\<close> for a scan that supplies no summary or one that satisfies it.
\<close>

lemma jobBatchManagement_select_invariant:
  assumes reads: "\<forall>b scan. I b \<longrightarrow> GetScan backendClient scanID b = Inr scan \<longrightarrow>
                    jobsCountInvariant totalTargets scan"
      and patch: "\<forall>b scan. I b \<longrightarrow>
                    (Scan.Summary scan = None \<or> jobsCountInvariant totalTargets scan) \<longrightarrow>
                    I (snd (PatchScan backendClient scanID scan b))"
      and inv: "I b"
      and step: "jobBatchManagement_select backendClient scanID targetIDToScanData event c b
                   = Inr (c', scan, b')"
  shows "I b' \<and> (Scan.Summary scan = None \<or> jobsCountInvariant totalTargets scan)"
proof -
  have ok: "Scan.Summary scan = None \<or> jobsCountInvariant totalTargets scan"
    and b': "b' = snd (PatchScan backendClient scanID scan b)"
  proof -
    show "b' = snd (PatchScan backendClient scanID scan b)"
      using step jobBatchManagement_select_Done [of backendClient scanID targetIDToScanData _ _ c b c' scan b']
      by (cases event) (auto simp: jobBatchManagement_select_KillSignal)
    show "Scan.Summary scan = None \<or> jobsCountInvariant totalTargets scan"
    proof (cases event)
      case (KillSignal t)
      with step have "scan = canceledScan t"
        by (simp add: jobBatchManagement_select_KillSignal)
      then show ?thesis by (simp add: canceledScan_def)
    next
      case (Done targetID now)
      with step jobBatchManagement_select_Done
        [of backendClient scanID targetIDToScanData targetID now c b c' scan b']
      obtain data scan0 where
        scan0: "scan0 = (case createScanWithUpdatedSummary backendClient scanID data b of
                        Inr updated \<Rightarrow> updated | Inl err \<Rightarrow> emptyScan)"
        and scan: "Scan.Summary scan = Scan.Summary scan0"
        by (auto simp: terminalScan_Summary)
      have "Scan.Summary scan0 = None \<or> jobsCountInvariant totalTargets scan0"
      proof (cases "createScanWithUpdatedSummary backendClient scanID data b")
        case (Inl err)
        with scan0 show ?thesis by (simp add: emptyScan_def)
      next
        case (Inr updated)
        from createScanWithUpdatedSummary_Inr [OF Inr] obtain stored where
          "GetScan backendClient scanID b = Inr stored" by blast
        with reads inv createScanWithUpdatedSummary_invariant [OF Inr]
        have "jobsCountInvariant totalTargets updated" by blast
        with Inr scan0 show ?thesis by simp
      qed
      with scan show ?thesis by (simp add: jobsCountInvariant_def)
    qed
  qed
  from patch inv ok b' show ?thesis by blast
qed

lemma jobBatchManagement_loop_invariant:
  assumes reads: "\<forall>b scan. I b \<longrightarrow> GetScan backendClient scanID b = Inr scan \<longrightarrow>
                    jobsCountInvariant totalTargets scan"
      and patch: "\<forall>b scan. I b \<longrightarrow>
                    (Scan.Summary scan = None \<or> jobsCountInvariant totalTargets scan) \<longrightarrow>
                    I (snd (PatchScan backendClient scanID scan b))"
      and inv: "I b"
      and run: "jobBatchManagement_loop backendClient scanID targetIDToScanData events c b
                  = Some (Inr (scans, c', b'))"
  shows "I b' \<and>
         (\<forall>scan \<in> set scans. Scan.Summary scan = None \<or> jobsCountInvariant totalTargets scan)"
  using inv run
proof (induction events arbitrary: c b scans)
  case Nil
  then show ?case by simp
next
  case (Cons event events)
  from Cons.prems(2) obtain c1 scan1 b1 where
    step: "jobBatchManagement_select backendClient scanID targetIDToScanData event c b
             = Inr (c1, scan1, b1)"
    by (auto split: sum.splits)
  from jobBatchManagement_select_invariant [OF reads patch Cons.prems(1) step]
  have one: "I b1" "Scan.Summary scan1 = None \<or> jobsCountInvariant totalTargets scan1"
    by simp_all
  show ?case
  proof (cases "scanComplete c1")
    case True
    with Cons.prems(2) step have "scans = [scan1]" "b' = b1" by simp_all
    with one show ?thesis by simp
  next
    case False
    with Cons.prems(2) step obtain scans' where
      rest: "jobBatchManagement_loop backendClient scanID targetIDToScanData events c1 b1
               = Some (Inr (scans', c', b'))"
      and scans: "scans = scan1 # scans'"
      by (auto split: option.splits sum.splits)
    from Cons.IH [OF one(1) rest] one(2) scans show ?thesis by simp
  qed
qed

lemma waitForResult_select_Continue:
  assumes "waitForResult_select backendClient event data b = Inr (Continue (data', b'))"
  shows "data' = data \<and> \<not> returningEvent backendClient data event"
  using assms
  by (auto simp: waitForResult_select_def returningEvent_def
      split: waitEvent.splits ctxDoneCause.splits sum.splits option.splits
        TargetScanStateState.splits)

lemma waitForResult_select_not_returning:
  assumes "\<not> returningEvent backendClient data event"
  shows "\<exists>b'. waitForResult_select backendClient event data b = Inr (Continue (data, b'))"
  using assms
  by (auto simp: waitForResult_select_def returningEvent_def
      split: waitEvent.splits ctxDoneCause.splits sum.splits option.splits
        TargetScanStateState.splits)

lemma waitForResult_returns_iff:
  "(waitForResult backendClient events data b \<noteq> None)
     = (\<exists>event \<in> set events. returningEvent backendClient data event)"
proof (induction events arbitrary: b)
  case Nil
  show ?case by simp
next
  case (Cons event events)
  show ?case
  proof (cases "returningEvent backendClient data event")
    case True
    then have "\<nexists>r. waitForResult_select backendClient event data b = Inr (Continue r)"
      using waitForResult_select_Continue by (metis surj_pair)
    then have "waitForResult backendClient (event # events) data b \<noteq> None"
      by (auto split: sum.splits iteration.splits)
    with True show ?thesis by simp
  next
    case False
    have "\<exists>b'. waitForResult_select backendClient event data b = Inr (Continue (data, b'))"
      by (rule waitForResult_select_not_returning [OF False])
    then obtain b' where
      "waitForResult_select backendClient event data b = Inr (Continue (data, b'))"
      by (rule exE)
    then have "waitForResult backendClient (event # events) data b
      = waitForResult backendClient events data b'"
      by simp
    with False Cons.IH [of b'] show ?thesis by simp
  qed
qed

text \<open>The example run of the controller: both targets complete, the second one failed.\<close>

lemma example_update:
  "createScanWithUpdatedSummary storeClient ''scan-1'' (exampleData ''target-1'' True True) exampleStore
     = Inr (exampleScan None ScanStateInProgress None None (exampleSummary 1 1 7 5 6))"
  by (simp add: createScanWithUpdatedSummary_def updateSummary_def example_defs store_defs)

lemma example_select:
  "jobBatchManagement_select storeClient ''scan-1'' exampleTargets (Done ''target-2'' 20)
       \<lparr>anyJobsFailed = False, numberOfCompletedJobs = 1, scanComplete = False\<rparr> exampleStore
     = Inr (\<lparr>anyJobsFailed = True, numberOfCompletedJobs = 2, scanComplete = True\<rparr>,
        exampleScan (Some 20) ScanStateFailed (Some ''One or more ScanJobs failed'')
          (Some ScanStateReasonOneOrMoreTargetFailedToScan) (exampleSummary 1 1 3 5 5),
        exampleStore\<lparr>storedScan :=
          exampleScan (Some 20) ScanStateFailed (Some ''One or more ScanJobs failed'')
            (Some ScanStateReasonOneOrMoreTargetFailedToScan) (exampleSummary 1 1 3 5 5)\<rparr>)"
  by (simp add: jobBatchManagement_select_def createScanWithUpdatedSummary_def updateSummary_def
      terminalScan_def Scan_GetState_def Let_def example_defs store_defs)

lemma example_run:
  "jobBatchManagement storeClient ''scan-1'' exampleTargets
       [Done ''target-1'' 10, Done ''target-2'' 20] exampleStore
     = Some (Inr ([exampleScan None ScanStateInProgress None None (exampleSummary 1 1 7 5 6),
          exampleScan (Some 20) ScanStateFailed (Some ''One or more ScanJobs failed'')
            (Some ScanStateReasonOneOrMoreTargetFailedToScan) (exampleSummary 2 0 10 5 5)],
        \<lparr>anyJobsFailed = True, numberOfCompletedJobs = 2, scanComplete = True\<rparr>,
        exampleStore\<lparr>storedScan :=
          exampleScan (Some 20) ScanStateFailed (Some ''One or more ScanJobs failed'')
            (Some ScanStateReasonOneOrMoreTargetFailedToScan) (exampleSummary 2 0 10 5 5)\<rparr>))"
  by (simp add: jobBatchManagement_def jobBatchManagement_select_def
      createScanWithUpdatedSummary_def updateSummary_def
      terminalScan_def Scan_GetState_def Let_def example_defs store_defs)


section \<open>The claims\<close>

subsection \<open>The scan-summary roll-up\<close>

text \<open>
  Claim C1 says that every finding total of the scan returned by
  \<open>createScanWithUpdatedSummary\<close> is the stored total plus the count of the completed
  target's result for the same category, each severity of the vulnerabilities added to
  its own. The code does not do this for the negligible vulnerabilities. On the example
  store the scan has 5 critical and 2 negligible vulnerabilities on record and the
  result of the first target reports 1 negligible one: the returned scan has 6
  negligible vulnerabilities (5 + 1, the stored critical total plus the result's
  negligible count), where the claim asks for 3. The other totals are as claimed
  (packages: 0 + 7).
\<close>

theorem createScanWithUpdatedSummary_negligible_from_critical:
  "GetScan storeClient ''scan-1'' exampleStore
     = Inr (exampleScan None ScanStateInProgress None None (exampleSummary 0 2 0 5 2))
   \<and> GetScanResultSummary storeClient (scanResultID (exampleData ''target-1'' True True)) exampleStore
     = Inr (exampleFindings 7 1)
   \<and> createScanWithUpdatedSummary storeClient ''scan-1'' (exampleData ''target-1'' True True) exampleStore
     = Inr (exampleScan None ScanStateInProgress None None (exampleSummary 1 1 7 5 6))"
  by (simp add: createScanWithUpdatedSummary_def updateSummary_def example_defs store_defs)

text \<open>
  Claim C6: every update of the scan summary on a job completion adds one to
  \<open>jobsCompleted\<close> and takes one from \<open>jobsLeftToRun\<close>, so their sum is kept (the first
  conjunct; the arithmetic is that of Go's \<open>int\<close>). Hence the invariant
  \<open>jobsCompleted + jobsLeftToRun = totalTargets\<close> holds when the controller's loop ends
  (the second conjunct): for every invariant \<open>I\<close> of the backend under which the scan
  read satisfies the invariant of the counters, and which \<open>PatchScan\<close> keeps for a scan
  that supplies no summary or a summary satisfying it, \<open>I\<close> holds after the loop if it
  held before, and every scan that the loop patched supplies no summary or one that
  satisfies the invariant of the counters.
\<close>

theorem jobs_counters_invariant:
  "(createScanWithUpdatedSummary backendClient scanID data b = Inr scan' \<longrightarrow>
      (\<exists>scan summary summary' jc jl.
          GetScan backendClient scanID b = Inr scan
          \<and> Scan.Summary scan = Some summary
          \<and> JobsCompleted summary = Some jc \<and> JobsLeftToRun summary = Some jl
          \<and> Scan.Summary scan' = Some summary'
          \<and> JobsCompleted summary' = Some (jc + 1) \<and> JobsLeftToRun summary' = Some (jl - 1)
          \<and> (jc + 1) + (jl - 1) = jc + jl))
   \<and> ((\<forall>b scan. I b \<longrightarrow> GetScan backendClient scanID b = Inr scan \<longrightarrow>
           jobsCountInvariant totalTargets scan) \<longrightarrow>
       (\<forall>b scan. I b \<longrightarrow>
           (Scan.Summary scan = None \<or> jobsCountInvariant totalTargets scan) \<longrightarrow>
           I (snd (PatchScan backendClient scanID scan b))) \<longrightarrow>
       I b0 \<longrightarrow>
       jobBatchManagement backendClient scanID targetIDToScanData events b0
         = Some (Inr (scans, c, b1)) \<longrightarrow>
       I b1 \<and>
       (\<forall>scan \<in> set scans. Scan.Summary scan = None \<or> jobsCountInvariant totalTargets scan))"
proof (intro conjI impI)
  assume "createScanWithUpdatedSummary backendClient scanID data b = Inr scan'"
  then show "\<exists>scan summary summary' jc jl.
          GetScan backendClient scanID b = Inr scan
          \<and> Scan.Summary scan = Some summary
          \<and> JobsCompleted summary = Some jc \<and> JobsLeftToRun summary = Some jl
          \<and> Scan.Summary scan' = Some summary'
          \<and> JobsCompleted summary' = Some (jc + 1) \<and> JobsLeftToRun summary' = Some (jl - 1)
          \<and> (jc + 1) + (jl - 1) = jc + jl"
    by (rule createScanWithUpdatedSummary_jobs)
next
  assume reads: "\<forall>b scan. I b \<longrightarrow> GetScan backendClient scanID b = Inr scan \<longrightarrow>
           jobsCountInvariant totalTargets scan"
    and patch: "\<forall>b scan. I b \<longrightarrow>
           (Scan.Summary scan = None \<or> jobsCountInvariant totalTargets scan) \<longrightarrow>
           I (snd (PatchScan backendClient scanID scan b))"
    and inv: "I b0"
    and run: "jobBatchManagement backendClient scanID targetIDToScanData events b0
         = Some (Inr (scans, c, b1))"
  from run have "jobBatchManagement_loop backendClient scanID targetIDToScanData events
       \<lparr>anyJobsFailed = False, numberOfCompletedJobs = 0, scanComplete = False\<rparr> b0
         = Some (Inr (scans, c, b1))"
    by (simp add: jobBatchManagement_def)
  from jobBatchManagement_loop_invariant [OF reads patch inv this]
  show "I b1"
    and "\<forall>scan \<in> set scans. Scan.Summary scan = None \<or> jobsCountInvariant totalTargets scan"
    by simp_all
qed

text \<open>
  The example run of two targets: the store starts with 0 completed and 2 left, each
  patch keeps the sum, and the loop ends with 2 completed and 0 left.
\<close>

theorem jobs_counters_invariant_witness:
  "createScanWithUpdatedSummary storeClient ''scan-1'' (exampleData ''target-1'' True True) exampleStore
     = Inr (exampleScan None ScanStateInProgress None None (exampleSummary 1 1 7 5 6))
   \<and> jobsCountInvariant 2 (storedScan exampleStore)
   \<and> jobsCountInvariant 2
       (storedScan (exampleStore\<lparr>storedScan :=
          exampleScan (Some 20) ScanStateFailed (Some ''One or more ScanJobs failed'')
            (Some ScanStateReasonOneOrMoreTargetFailedToScan) (exampleSummary 2 0 10 5 5)\<rparr>))
   \<and> Scan.Summary (exampleScan None ScanStateInProgress None None (exampleSummary 1 1 7 5 6))
       = Some (exampleSummary 1 1 7 5 6)
   \<and> JobsCompleted (exampleSummary 1 1 7 5 6) = Some (0 + 1)
   \<and> JobsLeftToRun (exampleSummary 1 1 7 5 6) = Some (2 - 1)"
proof -
  have reads: "\<forall>b scan. jobsCountInvariant 2 (storedScan b) \<longrightarrow>
      GetScan storeClient ''scan-1'' b = Inr scan \<longrightarrow> jobsCountInvariant 2 scan"
    by (simp add: storeClient_def)
  have patch: "\<forall>b scan. jobsCountInvariant 2 (storedScan b) \<longrightarrow>
      (Scan.Summary scan = None \<or> jobsCountInvariant 2 scan) \<longrightarrow>
      jobsCountInvariant 2 (storedScan (snd (PatchScan storeClient ''scan-1'' scan b)))"
    by (auto simp: storeClient_def patchedScan_def patched_def jobsCountInvariant_def
        split: option.splits)
  have inv: "jobsCountInvariant 2 (storedScan exampleStore)"
    by (simp add: jobsCountInvariant_def example_defs)
  note run = jobs_counters_invariant
    [of storeClient "''scan-1''" "exampleData ''target-1'' True True" exampleStore
        "exampleScan None ScanStateInProgress None None (exampleSummary 1 1 7 5 6)"
        "\<lambda>st. jobsCountInvariant 2 (storedScan st)" 2 exampleStore exampleTargets
        "[Done ''target-1'' 10, Done ''target-2'' 20]",
     THEN conjunct2, rule_format, OF reads [rule_format] patch [rule_format] inv example_run,
     THEN conjunct1]
  have counters: "Scan.Summary (exampleScan None ScanStateInProgress None None (exampleSummary 1 1 7 5 6))
       = Some (exampleSummary 1 1 7 5 6)
   \<and> JobsCompleted (exampleSummary 1 1 7 5 6) = Some (0 + 1)
   \<and> JobsLeftToRun (exampleSummary 1 1 7 5 6) = Some (2 - 1)"
    by (simp add: exampleScan_def exampleSummary_def)
  from example_update inv run counters show ?thesis
    by (intro conjI) (rule TrueI | assumption | erule conjunct1 | erule conjunct2 [THEN conjunct1] | erule conjunct2 [THEN conjunct2])+
qed

subsection \<open>The result waiter\<close>

text \<open>
  Claim C2, as stated, says that on observing the general state \<open>DONE\<close> or \<open>NOTSCANNED\<close>
  the waiter sets \<open>success\<close> to true if and only if the status has no errors on any
  sub-state, the analyzer families included. It fails on the example store: the status
  of the second target is \<open>DONE\<close> with no error on the general state and an error on the
  SBOM state, and the waiter sets \<open>success\<close> to true.
\<close>

theorem waitForResult_success_with_family_error:
  "GetScanResultStatus storeClient (scanResultID (exampleData ''target-2'' False False)) exampleStore
     = Inr (exampleStatus DONE None (Some [''syft failed'']))
   \<and> GetGeneralState (exampleStatus DONE None (Some [''syft failed''])) = Some DONE
   \<and> statusHasErrorsOnAnySubState (exampleStatus DONE None (Some [''syft failed'']))
   \<and> waitForResult storeClient [TimerC exampleStore] (exampleData ''target-2'' False False)
       exampleInitStore
     = Some (Inr (exampleData ''target-2'' True True, exampleStore))"
  by (simp add: waitForResult_select_def scanStatusHasErrors_def GetGeneralState_def GetState_def
      statusHasErrorsOnAnySubState_def subStateHasErrors_def example_defs store_defs)

text \<open>
  Claim C2, amended: whenever \<open>waitForResult\<close> observes the general state \<open>DONE\<close> or
  \<open>NOTSCANNED\<close>, it sets \<open>completed\<close> to true and \<open>success\<close> to true if and only if the
  error list of the general state is nil or empty, and returns; the errors of the
  analyzer-family states are not read.
\<close>

theorem waitForResult_done:
  assumes "GetScanResultStatus backendClient (scanResultID data) b' = Inr status"
      and "GetGeneralState status = Some DONE \<or> GetGeneralState status = Some NOTSCANNED"
  shows "\<exists>general. General status = Some general \<and>
           waitForResult backendClient (TimerC b' # events) data b =
             Some (Inr (data\<lparr>success := (case Errors general of
                                            None \<Rightarrow> True
                                          | Some errs \<Rightarrow> errs = []),
                              completed := True\<rparr>, b'))"
  using assms
  by (auto simp: waitForResult_select_def GetGeneralState_def scanStatusHasErrors_def
      split: option.splits)

text \<open>
  A status that is \<open>DONE\<close> with an error on the general state: the waiter returns with
  \<open>success\<close> false and \<open>completed\<close> true, whatever events follow.
\<close>

theorem waitForResult_done_witness:
  "GetScanResultStatus storeClient (scanResultID (exampleData ''target-1'' True False))
       (exampleStore\<lparr>storedResults :=
          [exampleResult ''target-1'' (exampleFindings 7 1)
             (exampleStatus DONE (Some [''mount failed'']) None)]\<rparr>)
     = Inr (exampleStatus DONE (Some [''mount failed'']) None)
   \<and> GetGeneralState (exampleStatus DONE (Some [''mount failed'']) None) = Some DONE
   \<and> waitForResult storeClient
       [TimerC (exampleStore\<lparr>storedResults :=
          [exampleResult ''target-1'' (exampleFindings 7 1)
             (exampleStatus DONE (Some [''mount failed'']) None)]\<rparr>), Ks]
       (exampleData ''target-1'' True False) exampleInitStore
     = Some (Inr (exampleData ''target-1'' False True,
          exampleStore\<lparr>storedResults :=
            [exampleResult ''target-1'' (exampleFindings 7 1)
               (exampleStatus DONE (Some [''mount failed'']) None)]\<rparr>))"
proof -
  have read: "GetScanResultStatus storeClient (scanResultID (exampleData ''target-1'' True False))
       (exampleStore\<lparr>storedResults :=
          [exampleResult ''target-1'' (exampleFindings 7 1)
             (exampleStatus DONE (Some [''mount failed'']) None)]\<rparr>)
     = Inr (exampleStatus DONE (Some [''mount failed'']) None)"
    by (simp add: example_defs store_defs)
  have state: "GetGeneralState (exampleStatus DONE (Some [''mount failed'']) None) = Some DONE"
    by (simp add: GetGeneralState_def GetState_def exampleStatus_def)
  from waitForResult_done [OF read disjI1 [OF state], of "[Ks]" exampleInitStore]
  obtain general where
    general: "General (exampleStatus DONE (Some [''mount failed'']) None) = Some general"
    and returned: "waitForResult storeClient
       [TimerC (exampleStore\<lparr>storedResults :=
          [exampleResult ''target-1'' (exampleFindings 7 1)
             (exampleStatus DONE (Some [''mount failed'']) None)]\<rparr>), Ks]
       (exampleData ''target-1'' True False) exampleInitStore
     = Some (Inr ((exampleData ''target-1'' True False)
          \<lparr>success := (case Errors general of None \<Rightarrow> True | Some errs \<Rightarrow> errs = []),
           completed := True\<rparr>,
          exampleStore\<lparr>storedResults :=
            [exampleResult ''target-1'' (exampleFindings 7 1)
               (exampleStatus DONE (Some [''mount failed'']) None)]\<rparr>))"
    by blast
  from general have "Errors general = Some [''mount failed'']"
    by (auto simp: exampleStatus_def)
  then have "(exampleData ''target-1'' True False)
          \<lparr>success := (case Errors general of None \<Rightarrow> True | Some errs \<Rightarrow> errs = []),
           completed := True\<rparr> = exampleData ''target-1'' False True"
    by (simp add: exampleData_def)
  with returned read state show ?thesis
    by (simp del: waitForResult.simps)
qed

text \<open>
  Claim C10, as stated, says that \<open>waitForResult\<close> only ever returns on observing the
  general state \<open>DONE\<close> or \<open>NOTSCANNED\<close>, on the job-result timeout expiring, or on the
  kill signal. It fails when the caller's context is done before the timeout has
  expired: the context of the wait is derived from it, the \<open>ctx.Done()\<close> branch is
  taken, and the waiter returns (with \<open>success = false\<close>, \<open>completed = true\<close> and
  \<open>timeout = true\<close>) although none of the three causes has occurred.
\<close>

theorem waitForResult_returns_on_caller_context_done:
  "waitForResult storeClient [CtxDone CallerContextDone] (exampleData ''target-1'' True False)
       exampleStore
     = Some (Inr ((exampleData ''target-1'' True False)
                    \<lparr>success := False, completed := True, timeout := True\<rparr>, exampleStore))
   \<and> \<not> (\<exists>event \<in> set [CtxDone CallerContextDone].
           returnsOnTimeoutOnly storeClient (exampleData ''target-1'' True False) event)"
  by (simp add: waitForResult_select_def returnsOnTimeoutOnly_def)

text \<open>
  Claim C10, amended: on a tick whose status read fails, the iteration of the waiter
  goes round the loop again with the scan data unchanged, so the waiter goes on with the
  next event (the first conjunct). And \<open>waitForResult\<close> returns on a list of events if and
  only if one of them is a returning event: a tick that observes \<open>DONE\<close> or
  \<open>NOTSCANNED\<close>, the end of the wait's context (because the job-result timeout has
  expired or because the caller's context is done), or the kill signal (the second
  conjunct).
\<close>

theorem waitForResult_status_read_error:
  "(GetScanResultStatus backendClient (scanResultID data) b' = Inl err \<longrightarrow>
      waitForResult_select backendClient (TimerC b') data b = Inr (Continue (data, b'))
      \<and> waitForResult backendClient (TimerC b' # events) data b
          = waitForResult backendClient events data b')
   \<and> (waitForResult backendClient events data b \<noteq> None)
       = (\<exists>event \<in> set events. returningEvent backendClient data event)"
  using waitForResult_returns_iff [of backendClient events data b]
  by (simp add: waitForResult_select_def)

text \<open>
  The store without scan results cannot be read: after such a tick the waiter is still
  waiting; it returns once the kill signal follows, and it returns as timed out once
  the caller's context is done.
\<close>

theorem waitForResult_status_read_error_witness:
  "GetScanResultStatus storeClient (scanResultID (exampleData ''target-1'' False False))
       (exampleStore\<lparr>storedResults := []\<rparr>) = Inl ''not found''
   \<and> waitForResult_select storeClient (TimerC (exampleStore\<lparr>storedResults := []\<rparr>))
         (exampleData ''target-1'' False False) exampleStore
       = Inr (Continue (exampleData ''target-1'' False False, exampleStore\<lparr>storedResults := []\<rparr>))
   \<and> waitForResult storeClient [TimerC (exampleStore\<lparr>storedResults := []\<rparr>)]
         (exampleData ''target-1'' False False) exampleStore = None
   \<and> waitForResult storeClient [TimerC (exampleStore\<lparr>storedResults := []\<rparr>), Ks]
         (exampleData ''target-1'' False False) exampleStore
       = Some (Inr (exampleData ''target-1'' False False, exampleStore\<lparr>storedResults := []\<rparr>))
   \<and> waitForResult storeClient
         [TimerC (exampleStore\<lparr>storedResults := []\<rparr>), CtxDone CallerContextDone]
         (exampleData ''target-1'' False False) exampleStore
       = Some (Inr ((exampleData ''target-1'' False False)
                      \<lparr>success := False, completed := True, timeout := True\<rparr>,
                    exampleStore\<lparr>storedResults := []\<rparr>))"
proof -
  have read: "GetScanResultStatus storeClient (scanResultID (exampleData ''target-1'' False False))
       (exampleStore\<lparr>storedResults := []\<rparr>) = Inl ''not found''"
    by (simp add: example_defs store_defs)
  from waitForResult_status_read_error
    [of storeClient "exampleData ''target-1'' False False" "exampleStore\<lparr>storedResults := []\<rparr>"
        "''not found''" exampleStore "[]"]
    waitForResult_status_read_error
    [of storeClient "exampleData ''target-1'' False False" "exampleStore\<lparr>storedResults := []\<rparr>"
        "''not found''" exampleStore "[Ks]"]
    waitForResult_status_read_error
    [of storeClient "exampleData ''target-1'' False False" "exampleStore\<lparr>storedResults := []\<rparr>"
        "''not found''" exampleStore "[CtxDone CallerContextDone]"]
    read
  show ?thesis
    by (simp add: waitForResult_select_def)
qed

subsection \<open>The terminal state of the scan\<close>

text \<open>
  Claim C3: in the iteration in which the number of completed jobs reaches the number of
  targets, the scan that the controller patches has its end time set, and its state and
  reason are: \<open>FAILED\<close> and \<open>UNEXPECTED\<close> when the state of the scan cannot be read (the
  update of the summary failed, or the scan read has no state); otherwise \<open>FAILED\<close> and
  \<open>ABORTED\<close> when the state read is \<open>ABORTED\<close>; otherwise \<open>FAILED\<close> and
  \<open>ONE_OR_MORE_TARGETS_FAILED\<close> when a job has failed; otherwise \<open>DONE\<close> and \<open>SUCCESS\<close>
  (the first conjunct). A job has failed, at the end of a run of the loop, exactly when
  the scan data of a target taken from the \<open>done\<close> channel during the run has
  \<open>success = false\<close> (the second conjunct).
\<close>

theorem jobBatchManagement_terminal_state:
  "(jobBatchManagement_select backendClient scanID targetIDToScanData (Done targetID now) c b
      = Inr (c', scan, b') \<longrightarrow>
    numberOfCompletedJobs c + 1 = of_nat (length targetIDToScanData) \<longrightarrow>
    (\<exists>data. map_of targetIDToScanData targetID = Some data
       \<and> scanComplete c'
       \<and> anyJobsFailed c' = (anyJobsFailed c \<or> \<not> success data)
       \<and> EndTime scan = Some now
       \<and> b' = snd (PatchScan backendClient scanID scan b)
       \<and> (Scan.State scan, StateReason scan) =
           (case (case createScanWithUpdatedSummary backendClient scanID data b of
                    Inr updated \<Rightarrow> Scan_GetState updated
                  | Inl err \<Rightarrow> None) of
              None \<Rightarrow> (Some ScanStateFailed, Some ScanStateReasonUnexpected)
            | Some ScanStateAborted \<Rightarrow> (Some ScanStateFailed, Some ScanStateReasonAborted)
            | Some _ \<Rightarrow>
                if anyJobsFailed c'
                then (Some ScanStateFailed, Some ScanStateReasonOneOrMoreTargetFailedToScan)
                else (Some ScanStateDone, Some ScanStateReasonSuccess))))
   \<and> (jobBatchManagement backendClient scanID targetIDToScanData events b
         = Some (Inr (scans, c', b')) \<longrightarrow>
       anyJobsFailed c' =
         (\<exists>targetID t data. Done targetID t \<in> set (take (length scans) events)
            \<and> map_of targetIDToScanData targetID = Some data \<and> \<not> success data))"
proof (intro conjI impI)
  assume step: "jobBatchManagement_select backendClient scanID targetIDToScanData
      (Done targetID now) c b = Inr (c', scan, b')"
    and all: "numberOfCompletedJobs c + 1 = of_nat (length targetIDToScanData)"
  from jobBatchManagement_select_Done [OF step] all obtain data where
    d: "map_of targetIDToScanData targetID = Some data"
       "c' = \<lparr>anyJobsFailed = (anyJobsFailed c \<or> \<not> success data),
              numberOfCompletedJobs = numberOfCompletedJobs c + 1,
              scanComplete = True\<rparr>"
       "scan = terminalScan (case createScanWithUpdatedSummary backendClient scanID data b of
                        Inr updated \<Rightarrow> updated | Inl err \<Rightarrow> emptyScan)
                 (anyJobsFailed c \<or> \<not> success data) now"
       "b' = snd (PatchScan backendClient scanID scan b)"
    by auto
  have e: "Scan_GetState emptyScan = None"
    by (simp add: Scan_GetState_def emptyScan_def)
  show "\<exists>data. map_of targetIDToScanData targetID = Some data
       \<and> scanComplete c'
       \<and> anyJobsFailed c' = (anyJobsFailed c \<or> \<not> success data)
       \<and> EndTime scan = Some now
       \<and> b' = snd (PatchScan backendClient scanID scan b)
       \<and> (Scan.State scan, StateReason scan) =
           (case (case createScanWithUpdatedSummary backendClient scanID data b of
                    Inr updated \<Rightarrow> Scan_GetState updated
                  | Inl err \<Rightarrow> None) of
              None \<Rightarrow> (Some ScanStateFailed, Some ScanStateReasonUnexpected)
            | Some ScanStateAborted \<Rightarrow> (Some ScanStateFailed, Some ScanStateReasonAborted)
            | Some _ \<Rightarrow>
                if anyJobsFailed c'
                then (Some ScanStateFailed, Some ScanStateReasonOneOrMoreTargetFailedToScan)
                else (Some ScanStateDone, Some ScanStateReasonSuccess))"
    using d e terminalScan_state
    by (cases "createScanWithUpdatedSummary backendClient scanID data b") simp_all
next
  assume "jobBatchManagement backendClient scanID targetIDToScanData events b
         = Some (Inr (scans, c', b'))"
  then show "anyJobsFailed c' =
         (\<exists>targetID t data. Done targetID t \<in> set (take (length scans) events)
            \<and> map_of targetIDToScanData targetID = Some data \<and> \<not> success data)"
    using jobBatchManagement_loop_anyJobsFailed
    by (fastforce simp: jobBatchManagement_def)
qed

text \<open>
  In the example the second of the two targets completes last and has failed: the
  patched scan is \<open>FAILED\<close> with reason \<open>ONE_OR_MORE_TARGETS_FAILED\<close> and ends at the
  time of the iteration.
\<close>

theorem jobBatchManagement_terminal_state_witness:
  "numberOfCompletedJobs \<lparr>anyJobsFailed = False, numberOfCompletedJobs = 1, scanComplete = False\<rparr> + 1
     = of_nat (length exampleTargets)
   \<and> jobBatchManagement_select storeClient ''scan-1'' exampleTargets (Done ''target-2'' 20)
       \<lparr>anyJobsFailed = False, numberOfCompletedJobs = 1, scanComplete = False\<rparr> exampleStore
     = Inr (\<lparr>anyJobsFailed = True, numberOfCompletedJobs = 2, scanComplete = True\<rparr>,
        exampleScan (Some 20) ScanStateFailed (Some ''One or more ScanJobs failed'')
          (Some ScanStateReasonOneOrMoreTargetFailedToScan) (exampleSummary 1 1 3 5 5),
        exampleStore\<lparr>storedScan :=
          exampleScan (Some 20) ScanStateFailed (Some ''One or more ScanJobs failed'')
            (Some ScanStateReasonOneOrMoreTargetFailedToScan) (exampleSummary 1 1 3 5 5)\<rparr>)
   \<and> EndTime (exampleScan (Some 20) ScanStateFailed (Some ''One or more ScanJobs failed'')
          (Some ScanStateReasonOneOrMoreTargetFailedToScan) (exampleSummary 1 1 3 5 5)) = Some 20
   \<and> anyJobsFailed \<lparr>anyJobsFailed = True, numberOfCompletedJobs = 2, scanComplete = True\<rparr>
     = (\<exists>targetID t data.
          Done targetID t \<in> set (take (length
              [exampleScan None ScanStateInProgress None None (exampleSummary 1 1 7 5 6),
               exampleScan (Some 20) ScanStateFailed (Some ''One or more ScanJobs failed'')
                 (Some ScanStateReasonOneOrMoreTargetFailedToScan) (exampleSummary 2 0 10 5 5)])
            [Done ''target-1'' 10, Done ''target-2'' 20])
          \<and> map_of exampleTargets targetID = Some data \<and> \<not> success data)"
proof -
  have count: "numberOfCompletedJobs
      \<lparr>anyJobsFailed = False, numberOfCompletedJobs = 1, scanComplete = False\<rparr> + 1
     = of_nat (length exampleTargets)"
    by (simp add: exampleTargets_def)
  note inst = jobBatchManagement_terminal_state
    [of storeClient "''scan-1''" exampleTargets "''target-2''" 20
        "\<lparr>anyJobsFailed = False, numberOfCompletedJobs = 1, scanComplete = False\<rparr>" exampleStore
        "\<lparr>anyJobsFailed = True, numberOfCompletedJobs = 2, scanComplete = True\<rparr>"
        "exampleScan (Some 20) ScanStateFailed (Some ''One or more ScanJobs failed'')
          (Some ScanStateReasonOneOrMoreTargetFailedToScan) (exampleSummary 1 1 3 5 5)"
        "exampleStore\<lparr>storedScan :=
          exampleScan (Some 20) ScanStateFailed (Some ''One or more ScanJobs failed'')
            (Some ScanStateReasonOneOrMoreTargetFailedToScan) (exampleSummary 1 1 3 5 5)\<rparr>"]
  from inst [THEN conjunct1, rule_format, OF example_select count]
  have endTime: "EndTime (exampleScan (Some 20) ScanStateFailed (Some ''One or more ScanJobs failed'')
          (Some ScanStateReasonOneOrMoreTargetFailedToScan) (exampleSummary 1 1 3 5 5)) = Some 20"
    by blast
  note failed = jobBatchManagement_terminal_state
    [where backendClient = storeClient and scanID = "''scan-1''"
       and targetIDToScanData = exampleTargets
       and events = "[Done ''target-1'' 10, Done ''target-2'' 20]" and b = exampleStore,
     THEN conjunct2, rule_format, OF example_run]
  from count example_select endTime failed show ?thesis
    by (intro conjI)
qed

subsection \<open>The job reaper\<close>

text \<open>
  Claim C4: for every job and both flags, \<open>deleteJobIfNeeded\<close> deletes the job when it
  is not completed, whatever the policy; when it is completed it deletes the job under
  the policy \<open>ALWAYS\<close>, does nothing under \<open>NEVER\<close>, and under \<open>ON_SUCCESS\<close> deletes it
  if and only if it was successful.
\<close>

theorem deleteJobIfNeeded_policy:
  "deleteJobIfNeeded config providerClient (Some job) isSuccessfulJob False
     = deleteJob providerClient job
   \<and> deleteJobIfNeeded (config\<lparr>DeleteJobPolicy := DeleteJobPolicyAlways\<rparr>) providerClient
       (Some job) isSuccessfulJob True = deleteJob providerClient job
   \<and> deleteJobIfNeeded (config\<lparr>DeleteJobPolicy := DeleteJobPolicyNever\<rparr>) providerClient
       (Some job) isSuccessfulJob True = []
   \<and> deleteJobIfNeeded (config\<lparr>DeleteJobPolicy := DeleteJobPolicyOnSuccess\<rparr>) providerClient
       (Some job) isSuccessfulJob True
     = (if isSuccessfulJob then deleteJob providerClient job else [])"
  by (simp add: deleteJobIfNeeded_def)

text \<open>
  Under \<open>ON_SUCCESS\<close> the resources of the completed example job survive when the job
  failed, and the four of them are deleted when the job is not completed.
\<close>

theorem deleteJobIfNeeded_policy_witness:
  "deleteJobIfNeeded (exampleConfig\<lparr>DeleteJobPolicy := DeleteJobPolicyOnSuccess\<rparr>) exampleProvider
     (Some exampleJob) False True = []
   \<and> deleteJobIfNeeded exampleConfig exampleProvider (Some exampleJob) False False
     = [DeleteInstance exampleScanner, DeleteSnapshot exampleSnapshot,
        DeleteSnapshot exampleCopy, DeleteVolume exampleVolume]"
proof -
  have "deleteJob exampleProvider exampleJob
     = [DeleteInstance exampleScanner, DeleteSnapshot exampleSnapshot,
        DeleteSnapshot exampleCopy, DeleteVolume exampleVolume]"
    by (simp add: deleteJob_def exampleJob_def exampleProvider_def)
  with deleteJobIfNeeded_policy [of exampleConfig exampleProvider exampleJob False]
  show ?thesis by simp
qed

text \<open>
  Claim C9: \<open>deleteJob\<close> attempts the deletions in the order instance, source snapshot,
  destination snapshot, volume, one for each field of the job that is not nil, whatever
  the outcome of each deletion (the first conjunct); for a job whose fields are all nil
  it does nothing (the second); and the error of a deletion that fails is logged (the
  last four).
\<close>

theorem deleteJob_order:
  "deletions (deleteJob providerClient job) =
     (case Job.Instance job of None \<Rightarrow> [] | Some i \<Rightarrow> [DeleteInstance i]) @
     (case SrcSnapshot job of None \<Rightarrow> [] | Some s \<Rightarrow> [DeleteSnapshot s]) @
     (case DstSnapshot job of None \<Rightarrow> [] | Some s \<Rightarrow> [DeleteSnapshot s]) @
     (case Job.Volume job of None \<Rightarrow> [] | Some v \<Rightarrow> [DeleteVolume v])
   \<and> deleteJob providerClient emptyJob = []
   \<and> (\<forall>i err. Job.Instance job = Some i \<longrightarrow> Instance_Delete providerClient i = Some err \<longrightarrow>
         LogErrorf (''Failed to delete instance. instanceID='' @ InstanceID i @ '': '' @ err)
           \<in> set (deleteJob providerClient job))
   \<and> (\<forall>s err. SrcSnapshot job = Some s \<longrightarrow> Snapshot_Delete providerClient s = Some err \<longrightarrow>
         LogErrorf (''Failed to delete source snapshot. snapshotID='' @ SnapshotID s @ '': '' @ err)
           \<in> set (deleteJob providerClient job))
   \<and> (\<forall>s err. DstSnapshot job = Some s \<longrightarrow> Snapshot_Delete providerClient s = Some err \<longrightarrow>
         LogErrorf (''Failed to delete destination snapshot. snapshotID='' @ SnapshotID s @ '': '' @ err)
           \<in> set (deleteJob providerClient job))
   \<and> (\<forall>v err. Job.Volume job = Some v \<longrightarrow> Volume_Delete providerClient v = Some err \<longrightarrow>
         LogErrorf (''Failed to delete volume. volumeID='' @ VolumeID v @ '': '' @ err)
           \<in> set (deleteJob providerClient job))"
  by (auto simp: deleteJob_def emptyJob_def deletions_append split: option.splits)

text \<open>
  With a provider that refuses every deletion, all four deletions of the example job
  are still attempted, in order, and the refusal of the first is logged.
\<close>

theorem deleteJob_order_witness:
  "Job.Instance exampleJob = Some exampleScanner
   \<and> Instance_Delete (exampleProvider\<lparr>Instance_Delete := (\<lambda>i. Some ''denied''),
         Snapshot_Delete := (\<lambda>s. Some ''denied''), Volume_Delete := (\<lambda>v. Some ''denied'')\<rparr>)
       exampleScanner = Some ''denied''
   \<and> deletions (deleteJob (exampleProvider\<lparr>Instance_Delete := (\<lambda>i. Some ''denied''),
         Snapshot_Delete := (\<lambda>s. Some ''denied''), Volume_Delete := (\<lambda>v. Some ''denied'')\<rparr>)
       exampleJob)
     = [DeleteInstance exampleScanner, DeleteSnapshot exampleSnapshot,
        DeleteSnapshot exampleCopy, DeleteVolume exampleVolume]
   \<and> LogErrorf ''Failed to delete instance. instanceID=i-scanner: denied''
       \<in> set (deleteJob (exampleProvider\<lparr>Instance_Delete := (\<lambda>i. Some ''denied''),
         Snapshot_Delete := (\<lambda>s. Some ''denied''), Volume_Delete := (\<lambda>v. Some ''denied'')\<rparr>)
       exampleJob)"
proof -
  have job: "Job.Instance exampleJob = Some exampleScanner"
    by (simp add: exampleJob_def)
  have refused: "Instance_Delete (exampleProvider\<lparr>Instance_Delete := (\<lambda>i. Some ''denied''),
         Snapshot_Delete := (\<lambda>s. Some ''denied''), Volume_Delete := (\<lambda>v. Some ''denied'')\<rparr>)
       exampleScanner = Some ''denied''"
    by simp
  note inst = deleteJob_order
    [of "exampleProvider\<lparr>Instance_Delete := (\<lambda>i. Some ''denied''),
         Snapshot_Delete := (\<lambda>s. Some ''denied''), Volume_Delete := (\<lambda>v. Some ''denied'')\<rparr>"
        exampleJob]
  from inst have order: "deletions (deleteJob (exampleProvider\<lparr>Instance_Delete := (\<lambda>i. Some ''denied''),
         Snapshot_Delete := (\<lambda>s. Some ''denied''), Volume_Delete := (\<lambda>v. Some ''denied'')\<rparr>)
       exampleJob)
     = [DeleteInstance exampleScanner, DeleteSnapshot exampleSnapshot,
        DeleteSnapshot exampleCopy, DeleteVolume exampleVolume]"
    by (simp add: exampleJob_def)
  from inst [THEN conjunct2, THEN conjunct2, THEN conjunct1, rule_format, OF job refused]
  have logged: "LogErrorf ''Failed to delete instance. instanceID=i-scanner: denied''
       \<in> set (deleteJob (exampleProvider\<lparr>Instance_Delete := (\<lambda>i. Some ''denied''),
         Snapshot_Delete := (\<lambda>s. Some ''denied''), Volume_Delete := (\<lambda>v. Some ''denied'')\<rparr>)
       exampleJob)"
    by (simp add: exampleScanner_def)
  from job refused order logged show ?thesis
    by (intro conjI)
qed

subsection \<open>The initial scan result\<close>

text \<open>
  Claim C7: the scan result that \<open>createInitTargetScanStatus\<close> posts (its only write to
  the backend) has the general state \<open>INIT\<close>, a findings summary whose counts are all
  zero, and for each analyzer family the state \<open>INIT\<close> when the family's configuration is
  present with its \<open>Enabled\<close> flag present and true, and \<open>NOTSCANNED\<close> otherwise, that
  is, when the configuration is nil or the flag is nil or false.
\<close>

theorem createInitTargetScanStatus_initial_result:
  "snd (createInitTargetScanStatus backendClient families scanID targetID b)
     = snd (PostScanResult backendClient (initScanResult families scanID targetID) b)
   \<and> Status (initScanResult families scanID targetID) = Some (initScanStatus families)
   \<and> GetGeneralState (initScanStatus families) = Some INIT
   \<and> TargetScanResult.Summary (initScanResult families scanID targetID) = Some
       \<lparr>ScanFindingsSummary.TotalExploits = Some 0,
        ScanFindingsSummary.TotalMalware = Some 0,
        ScanFindingsSummary.TotalMisconfigurations = Some 0,
        ScanFindingsSummary.TotalPackages = Some 0,
        ScanFindingsSummary.TotalRootkits = Some 0,
        ScanFindingsSummary.TotalSecrets = Some 0,
        ScanFindingsSummary.TotalVulnerabilities = Some
          \<lparr>TotalCriticalVulnerabilities = Some 0,
           TotalHighVulnerabilities = Some 0,
           TotalLowVulnerabilities = Some 0,
           TotalMediumVulnerabilities = Some 0,
           TotalNegligibleVulnerabilities = Some 0\<rparr>\<rparr>
   \<and> map_option GetState (TargetScanStatus.Exploits (initScanStatus families)) = Some (Some
       (if Option.bind (ScanFamiliesConfig.Exploits families) ExploitsConfig.Enabled = Some True
        then INIT else NOTSCANNED))
   \<and> map_option GetState (TargetScanStatus.Malware (initScanStatus families)) = Some (Some
       (if Option.bind (ScanFamiliesConfig.Malware families) MalwareConfig.Enabled = Some True
        then INIT else NOTSCANNED))
   \<and> map_option GetState (TargetScanStatus.Misconfigurations (initScanStatus families)) = Some (Some
       (if Option.bind (ScanFamiliesConfig.Misconfigurations families) MisconfigurationsConfig.Enabled
             = Some True
        then INIT else NOTSCANNED))
   \<and> map_option GetState (TargetScanStatus.Rootkits (initScanStatus families)) = Some (Some
       (if Option.bind (ScanFamiliesConfig.Rootkits families) RootkitsConfig.Enabled = Some True
        then INIT else NOTSCANNED))
   \<and> map_option GetState (TargetScanStatus.Sbom (initScanStatus families)) = Some (Some
       (if Option.bind (ScanFamiliesConfig.Sbom families) SBOMConfig.Enabled = Some True
        then INIT else NOTSCANNED))
   \<and> map_option GetState (TargetScanStatus.Secrets (initScanStatus families)) = Some (Some
       (if Option.bind (ScanFamiliesConfig.Secrets families) SecretsConfig.Enabled = Some True
        then INIT else NOTSCANNED))
   \<and> map_option GetState (TargetScanStatus.Vulnerabilities (initScanStatus families)) = Some (Some
       (if Option.bind (ScanFamiliesConfig.Vulnerabilities families) VulnerabilitiesConfig.Enabled
             = Some True
        then INIT else NOTSCANNED))"
proof -
  have post: "snd (createInitTargetScanStatus backendClient families scanID targetID b)
     = snd (PostScanResult backendClient (initScanResult families scanID targetID) b)"
    by (simp add: createInitTargetScanStatus_def
        split: prod.splits sum.splits postError.splits option.splits)
  have result: "Status (initScanResult families scanID targetID) = Some (initScanStatus families)"
    "TargetScanResult.Summary (initScanResult families scanID targetID)
       = Some createInitScanResultSummary"
    by (simp_all add: initScanResult_def)
  have general: "GetGeneralState (initScanStatus families) = Some INIT"
    by (simp add: GetGeneralState_def GetState_def initScanStatus_def stateToPointer_def)
  have fams:
    "map_option GetState (TargetScanStatus.Exploits (initScanStatus families)) = Some (Some
       (if Option.bind (ScanFamiliesConfig.Exploits families) ExploitsConfig.Enabled = Some True
        then INIT else NOTSCANNED))"
    "map_option GetState (TargetScanStatus.Malware (initScanStatus families)) = Some (Some
       (if Option.bind (ScanFamiliesConfig.Malware families) MalwareConfig.Enabled = Some True
        then INIT else NOTSCANNED))"
    "map_option GetState (TargetScanStatus.Misconfigurations (initScanStatus families)) = Some (Some
       (if Option.bind (ScanFamiliesConfig.Misconfigurations families) MisconfigurationsConfig.Enabled
             = Some True
        then INIT else NOTSCANNED))"
    "map_option GetState (TargetScanStatus.Rootkits (initScanStatus families)) = Some (Some
       (if Option.bind (ScanFamiliesConfig.Rootkits families) RootkitsConfig.Enabled = Some True
        then INIT else NOTSCANNED))"
    "map_option GetState (TargetScanStatus.Sbom (initScanStatus families)) = Some (Some
       (if Option.bind (ScanFamiliesConfig.Sbom families) SBOMConfig.Enabled = Some True
        then INIT else NOTSCANNED))"
    "map_option GetState (TargetScanStatus.Secrets (initScanStatus families)) = Some (Some
       (if Option.bind (ScanFamiliesConfig.Secrets families) SecretsConfig.Enabled = Some True
        then INIT else NOTSCANNED))"
    "map_option GetState (TargetScanStatus.Vulnerabilities (initScanStatus families)) = Some (Some
       (if Option.bind (ScanFamiliesConfig.Vulnerabilities families) VulnerabilitiesConfig.Enabled
             = Some True
        then INIT else NOTSCANNED))"
    by (simp_all add: initScanStatus_def GetState_def stateToPointer_def
        getInitScanStatusExploitsStateFromEnabled_def getInitScanStatusMalwareStateFromEnabled_def
        getInitScanStatusMisconfigurationsStateFromEnabled_def
        getInitScanStatusRootkitsStateFromEnabled_def getInitScanStatusSbomStateFromEnabled_def
        getInitScanStatusSecretsStateFromEnabled_def
        getInitScanStatusVulnerabilitiesStateFromEnabled_def split: option.splits)
  show ?thesis
    using post result general fams by (simp add: createInitScanResultSummary_def)
qed

text \<open>
  The example configuration enables the SBOM and vulnerability families, gives the
  malware family no flag, disables the misconfiguration family and has no configuration
  for the others.
\<close>

theorem createInitTargetScanStatus_initial_result_witness:
  "GetGeneralState (initScanStatus exampleFamilies) = Some INIT
   \<and> map_option GetState (TargetScanStatus.Sbom (initScanStatus exampleFamilies))
       = Some (Some INIT)
   \<and> map_option GetState (TargetScanStatus.Vulnerabilities (initScanStatus exampleFamilies))
       = Some (Some INIT)
   \<and> map_option GetState (TargetScanStatus.Malware (initScanStatus exampleFamilies))
       = Some (Some NOTSCANNED)
   \<and> map_option GetState (TargetScanStatus.Misconfigurations (initScanStatus exampleFamilies))
       = Some (Some NOTSCANNED)
   \<and> map_option GetState (TargetScanStatus.Exploits (initScanStatus exampleFamilies))
       = Some (Some NOTSCANNED)"
  using createInitTargetScanStatus_initial_result
    [of storeClient exampleFamilies "''scan-1''" "''target-1''" exampleStore]
  by (simp add: exampleFamilies_def)

text \<open>
  Claim C8: when \<open>PostScanResult\<close> returns a conflict error that carries the existing
  scan result and its identifier, \<open>createInitTargetScanStatus\<close> returns that identifier
  and no error, and the backend is as the one post left it (the first conjunct). So when
  a first call creates a scan result and the post of a second call for the same scan and
  target is answered with a conflict carrying the identifier created, both calls return
  the same identifier (the second conjunct).
\<close>

theorem createInitTargetScanStatus_conflict:
  "(PostScanResult backendClient (initScanResult families scanID targetID) b
      = (Inl (ScanResultConflictError existing), b') \<longrightarrow>
    TargetScanResult.Id existing = Some i \<longrightarrow>
    createInitTargetScanStatus backendClient families scanID targetID b = (Inr i, b'))
   \<and> (PostScanResult backendClient (initScanResult families scanID targetID) b0
         = (Inr created, b1) \<longrightarrow>
       TargetScanResult.Id created = Some i \<longrightarrow>
       PostScanResult backendClient (initScanResult families scanID targetID) b1
         = (Inl (ScanResultConflictError existing), b2) \<longrightarrow>
       TargetScanResult.Id existing = Some i \<longrightarrow>
       createInitTargetScanStatus backendClient families scanID targetID b0 = (Inr i, b1)
       \<and> createInitTargetScanStatus backendClient families scanID targetID b1 = (Inr i, b2))"
  by (simp add: createInitTargetScanStatus_def)

text \<open>
  On the in-memory store the second call for the same scan and target returns the
  identifier that the first one created, and leaves the store with the one scan result.
\<close>

theorem createInitTargetScanStatus_conflict_witness:
  "PostScanResult storeClient (initScanResult exampleFamilies ''scan-1'' ''target-1'')
       (exampleInitStore\<lparr>storedResults := []\<rparr>)
     = (Inr ((initScanResult exampleFamilies ''scan-1'' ''target-1'')
               \<lparr>TargetScanResult.Id := Some ''scan-1/target-1''\<rparr>), exampleInitStore)
   \<and> PostScanResult storeClient (initScanResult exampleFamilies ''scan-1'' ''target-1'')
       exampleInitStore
     = (Inl (ScanResultConflictError ((initScanResult exampleFamilies ''scan-1'' ''target-1'')
               \<lparr>TargetScanResult.Id := Some ''scan-1/target-1''\<rparr>)), exampleInitStore)
   \<and> createInitTargetScanStatus storeClient exampleFamilies ''scan-1'' ''target-1''
       (exampleInitStore\<lparr>storedResults := []\<rparr>) = (Inr ''scan-1/target-1'', exampleInitStore)
   \<and> createInitTargetScanStatus storeClient exampleFamilies ''scan-1'' ''target-1''
       exampleInitStore = (Inr ''scan-1/target-1'', exampleInitStore)"
proof -
  have first: "PostScanResult storeClient (initScanResult exampleFamilies ''scan-1'' ''target-1'')
       (exampleInitStore\<lparr>storedResults := []\<rparr>)
     = (Inr ((initScanResult exampleFamilies ''scan-1'' ''target-1'')
               \<lparr>TargetScanResult.Id := Some ''scan-1/target-1''\<rparr>), exampleInitStore)"
    by (simp add: store_defs exampleInitStore_def initScanResult_def)
  have second: "PostScanResult storeClient (initScanResult exampleFamilies ''scan-1'' ''target-1'')
       exampleInitStore
     = (Inl (ScanResultConflictError ((initScanResult exampleFamilies ''scan-1'' ''target-1'')
               \<lparr>TargetScanResult.Id := Some ''scan-1/target-1''\<rparr>)), exampleInitStore)"
    by (simp add: store_defs exampleInitStore_def initScanResult_def)
  have ident: "TargetScanResult.Id ((initScanResult exampleFamilies ''scan-1'' ''target-1'')
               \<lparr>TargetScanResult.Id := Some ''scan-1/target-1''\<rparr>) = Some ''scan-1/target-1''"
    by simp
  note both = createInitTargetScanStatus_conflict
    [THEN conjunct2, rule_format, OF first ident second ident]
  note again = createInitTargetScanStatus_conflict
    [THEN conjunct1, rule_format, OF second ident]
  from first second both [THEN conjunct1] again show ?thesis
    by (intro conjI)
qed

subsection \<open>The cleanup of the job pipeline\<close>

text \<open>
  Claim C5 says that on every error path out of \<open>runJob\<close> each resource recorded on the
  job is attempted for deletion exactly once. The code does not do this on the three
  paths whose error is declared in the \<open>if\<close> statement. In the example the wait for the
  scanner instance fails after the snapshot, its copy, the instance and the volume were
  recorded on the job: \<open>runJob\<close> returns the empty job and the error, the worker hands a
  nil job to the reaper, and no deletion is attempted at all (the first three
  conjuncts). When the attachment fails instead, whose error is assigned to the variable
  of \<open>runJob\<close>, each of the four resources is deleted once (the last conjunct).
\<close>

theorem runJob_wait_error_deletes_nothing:
  "runJob exampleConfig exampleScanConfig storeClient
       (exampleProvider\<lparr>Instance_WaitForReady := (\<lambda>i. Some ''timed out'')\<rparr>)
       (Inr ''families'') (exampleData ''target-1'' False False) exampleInitStore
     = ((emptyJob, Some ''failed to wait for instance ready: timed out''),
        [SnapshotTaken exampleSnapshot, SnapshotCopied exampleCopy,
         InstanceLaunched exampleScanner, VolumeCreated exampleVolume],
        exampleInitStore)
   \<and> worker_item exampleConfig exampleScanConfig storeClient (\<lambda>resultID errMsg st. (None, st))
       (exampleProvider\<lparr>Instance_WaitForReady := (\<lambda>i. Some ''timed out'')\<rparr>)
       (Inr ''families'') [] (exampleData ''target-1'' False False) exampleInitStore
     = Some (Inr (''target-1'', exampleData ''target-1'' False True,
          [SnapshotTaken exampleSnapshot, SnapshotCopied exampleCopy,
           InstanceLaunched exampleScanner, VolumeCreated exampleVolume],
          exampleInitStore))
   \<and> deletions [SnapshotTaken exampleSnapshot, SnapshotCopied exampleCopy,
         InstanceLaunched exampleScanner, VolumeCreated exampleVolume] = []
   \<and> worker_item exampleConfig exampleScanConfig storeClient (\<lambda>resultID errMsg st. (None, st))
       (exampleProvider\<lparr>AttachVolume := (\<lambda>i v device. Some ''timed out'')\<rparr>)
       (Inr ''families'') [] (exampleData ''target-1'' False False) exampleInitStore
     = Some (Inr (''target-1'', exampleData ''target-1'' False True,
          [SnapshotTaken exampleSnapshot, SnapshotCopied exampleCopy,
           InstanceLaunched exampleScanner, VolumeCreated exampleVolume,
           DeleteInstance exampleScanner, DeleteSnapshot exampleSnapshot,
           DeleteSnapshot exampleCopy, DeleteVolume exampleVolume],
          exampleInitStore))"
proof -
  have status: "GetScanResultStatus storeClient (scanResultID (exampleData ''target-1'' False False))
      exampleInitStore = Inr (initScanStatus exampleFamilies)"
    by (simp add: store_defs exampleInitStore_def exampleData_def initScanResult_def)
  have init: "GetGeneralState (initScanStatus exampleFamilies) = Some INIT"
    by (simp add: GetGeneralState_def GetState_def initScanStatus_def stateToPointer_def)
  have failed: "runJob exampleConfig exampleScanConfig storeClient
       (exampleProvider\<lparr>Instance_WaitForReady := (\<lambda>i. Some ''timed out'')\<rparr>)
       (Inr ''families'') (exampleData ''target-1'' False False) exampleInitStore
     = ((emptyJob, Some ''failed to wait for instance ready: timed out''),
        [SnapshotTaken exampleSnapshot, SnapshotCopied exampleCopy,
         InstanceLaunched exampleScanner, VolumeCreated exampleVolume],
        exampleInitStore)"
    by (simp add: runJob_def runJob_launch_def runJob_deferred_def Let_def
        exampleConfig_def exampleScanConfig_def exampleProvider_def exampleData_def
        exampleInstance_def exampleSnapshot_def exampleCopy_def exampleScanner_def
        exampleVolume_def)
  have attach: "runJob exampleConfig exampleScanConfig storeClient
       (exampleProvider\<lparr>AttachVolume := (\<lambda>i v device. Some ''timed out'')\<rparr>)
       (Inr ''families'') (exampleData ''target-1'' False False) exampleInitStore
     = ((emptyJob, Some ''failed to attach volume: timed out''),
        [SnapshotTaken exampleSnapshot, SnapshotCopied exampleCopy,
         InstanceLaunched exampleScanner, VolumeCreated exampleVolume,
         DeleteInstance exampleScanner, DeleteSnapshot exampleSnapshot,
         DeleteSnapshot exampleCopy, DeleteVolume exampleVolume],
        exampleInitStore)"
    by (simp add: runJob_def runJob_launch_def runJob_deferred_def deleteJob_def emptyJob_def
        Let_def exampleConfig_def exampleScanConfig_def exampleProvider_def exampleData_def
        exampleInstance_def exampleSnapshot_def exampleCopy_def exampleScanner_def
        exampleVolume_def)
  have data: "(exampleData ''target-1'' False False)\<lparr>success := False, completed := True\<rparr>
      = exampleData ''target-1'' False True"
    "TargetID (targetInstance (exampleData ''target-1'' False True)) = ''target-1''"
    "success (exampleData ''target-1'' False True) = False"
    "completed (exampleData ''target-1'' False True) = True"
    "scanResultID (exampleData ''target-1'' False True) = ''scan-1/target-1''"
    by (simp_all add: exampleData_def)
  have worker1: "worker_item exampleConfig exampleScanConfig storeClient
       (\<lambda>resultID errMsg st. (None, st))
       (exampleProvider\<lparr>Instance_WaitForReady := (\<lambda>i. Some ''timed out'')\<rparr>)
       (Inr ''families'') [] (exampleData ''target-1'' False False) exampleInitStore
     = Some (Inr (''target-1'', exampleData ''target-1'' False True,
          [SnapshotTaken exampleSnapshot, SnapshotCopied exampleCopy,
           InstanceLaunched exampleScanner, VolumeCreated exampleVolume],
          exampleInitStore))"
    by (simp add: worker_item_def handleScanData_def status init failed data
        deleteJobIfNeeded_def)
  have worker2: "worker_item exampleConfig exampleScanConfig storeClient
       (\<lambda>resultID errMsg st. (None, st))
       (exampleProvider\<lparr>AttachVolume := (\<lambda>i v device. Some ''timed out'')\<rparr>)
       (Inr ''families'') [] (exampleData ''target-1'' False False) exampleInitStore
     = Some (Inr (''target-1'', exampleData ''target-1'' False True,
          [SnapshotTaken exampleSnapshot, SnapshotCopied exampleCopy,
           InstanceLaunched exampleScanner, VolumeCreated exampleVolume,
           DeleteInstance exampleScanner, DeleteSnapshot exampleSnapshot,
           DeleteSnapshot exampleCopy, DeleteVolume exampleVolume],
          exampleInitStore))"
    by (simp add: worker_item_def handleScanData_def status init attach data
        deleteJobIfNeeded_def)
  have none: "deletions [SnapshotTaken exampleSnapshot, SnapshotCopied exampleCopy,
         InstanceLaunched exampleScanner, VolumeCreated exampleVolume] = []"
    by simp
  from failed worker1 none worker2 show ?thesis
    by (intro conjI)
qed

end
